theory Spec2Isabelle
  imports Complex_Main "HOL-Library.Word"
begin

section \<open>JavaScript strings and numbers\<close>

text \<open>
  The scraper (\<^verbatim>\<open>ScreenshotScraper\<close>) works on JavaScript strings, which are
  sequences of UTF-16 code units. The euro sign of the price patterns and the
  superscript two of the default size are single code units outside ASCII, and
  \<^verbatim>\<open>trim\<close> and \<^verbatim>\<open>\s\<close> know white space outside ASCII, so a string is a list of
  16-bit words. \<open>str\<close> embeds an ASCII literal.

  The program's numbers are IEEE doubles. Indices, clock readings and the small
  integers computed from them are exact and are integers of HOL; the numbers read from a
  text by \<^verbatim>\<open>parseInt\<close>, and what is computed from them, are of the type \<open>number\<close>
  below, which rounds and overflows as doubles do.
\<close>

type_synonym ustring = "16 word list"

definition str :: "string \<Rightarrow> ustring" where
  "str s = map of_char s"

definition euro :: "16 word" where
  "euro = 0x20AC"

definition superscript_two :: "16 word" where
  "superscript_two = 0xB2"

text \<open>The class \<^verbatim>\<open>\d\<close> of a JavaScript pattern: the ten ASCII digits.\<close>

definition is_digit :: "16 word \<Rightarrow> bool" where
  "is_digit c = (0x30 \<le> c \<and> c \<le> 0x39)"

text \<open>
  White space as \<^verbatim>\<open>String.prototype.trim\<close> and the class \<^verbatim>\<open>\s\<close> read it: TAB, LF,
  VT, FF, CR, SP, NBSP, the Unicode space separators, LS, PS and the byte order mark.
\<close>

definition is_space :: "16 word \<Rightarrow> bool" where
  "is_space c =
     ((0x09 \<le> c \<and> c \<le> 0x0D) \<or> c = 0x20 \<or> c = 0xA0 \<or> c = 0x1680 \<or>
      (0x2000 \<le> c \<and> c \<le> 0x200A) \<or> c = 0x2028 \<or> c = 0x2029 \<or> c = 0x202F \<or>
      c = 0x205F \<or> c = 0x3000 \<or> c = 0xFEFF)"

definition trim :: "ustring \<Rightarrow> ustring" where
  "trim s = rev (dropWhile is_space (rev (dropWhile is_space s)))"

text \<open>\<^verbatim>\<open>s.startsWith(p)\<close>.\<close>

definition startsWith :: "ustring \<Rightarrow> ustring \<Rightarrow> bool" where
  "startsWith s p = (take (length p) s = p)"

text \<open>
  \<^verbatim>\<open>s.replace(c, '')\<close> for a pattern \<open>c\<close> that is a string of one character: the first
  occurrence of \<open>c\<close> is removed, later ones stay.
\<close>

definition replace_first :: "16 word \<Rightarrow> ustring \<Rightarrow> ustring" where
  "replace_first c s = remove1 c s"

text \<open>\<^verbatim>\<open>s.split(c)\<close> for a separator of one character.\<close>

fun split_on :: "16 word \<Rightarrow> ustring \<Rightarrow> ustring list" where
  "split_on c [] = [[]]"
| "split_on c (x # xs) =
     (if x = c then [] # split_on c xs
      else (case split_on c xs of
              [] \<Rightarrow> [[x]]
            | p # ps \<Rightarrow> (x # p) # ps))"

text \<open>\<^verbatim>\<open>xs[i]\<close> on an array: \<^verbatim>\<open>undefined\<close> (\<open>None\<close>) out of range.\<close>

definition at_index :: "'a list \<Rightarrow> nat \<Rightarrow> 'a option" where
  "at_index xs i = (if i < length xs then Some (xs ! i) else None)"

text \<open>
  \<^verbatim>\<open>x || d\<close> where \<open>x\<close> is a string, \<^verbatim>\<open>null\<close> or \<^verbatim>\<open>undefined\<close> (\<open>None\<close>): the empty
  string is falsy too.
\<close>

definition or_default :: "ustring option \<Rightarrow> ustring \<Rightarrow> ustring" where
  "or_default x d = (case x of None \<Rightarrow> d | Some s \<Rightarrow> if s = [] then d else s)"

text \<open>
  A value inside a template literal: \<^verbatim>\<open>null\<close> prints as \<^verbatim>\<open>null\<close>, and the
  \<^verbatim>\<open>undefined\<close> that \<^verbatim>\<open>?.\<close> gives on \<^verbatim>\<open>null\<close> prints as \<^verbatim>\<open>undefined\<close>.
\<close>

definition tpl_null :: "ustring option \<Rightarrow> ustring" where
  "tpl_null x = (case x of None \<Rightarrow> str ''null'' | Some s \<Rightarrow> s)"

definition tpl_undefined :: "ustring option \<Rightarrow> ustring" where
  "tpl_undefined x = (case x of None \<Rightarrow> str ''undefined'' | Some s \<Rightarrow> s)"

subsection \<open>Numbers to strings and back\<close>

definition digit_char :: "nat \<Rightarrow> 16 word" where
  "digit_char d = of_nat (48 + d)"

definition digit_val :: "16 word \<Rightarrow> nat" where
  "digit_val c = unat c - 48"

text \<open>The decimal numeral of a natural number, as a template literal prints it.\<close>

fun show_nat :: "nat \<Rightarrow> ustring" where
  "show_nat n =
     (if n < 10 then [digit_char n] else show_nat (n div 10) @ [digit_char (n mod 10)])"

declare show_nat.simps [simp del]

definition show_int :: "int \<Rightarrow> ustring" where
  "show_int k = (if k < 0 then of_char CHR ''-'' # show_nat (nat (- k)) else show_nat (nat k))"

text \<open>The value of a string of decimal digits.\<close>

definition digits_value :: "ustring \<Rightarrow> nat" where
  "digits_value ds = foldl (\<lambda>a c. 10 * a + digit_val c) 0 ds"

subsection \<open>Doubles\<close>

text \<open>
  The doubles that the program computes from a text: a non-negative integer, or
  \<^verbatim>\<open>Infinity\<close>. A double has 53 significant bits, so an integer from \<open>2 ^ 53\<close> on is
  rounded to the nearest double, to the even one on a tie, and \<open>2 ^ 1024\<close> is out of
  range.
\<close>

datatype number = Fin int | Infinity

text \<open>The least \<open>e\<close> such that \<open>n div 2 ^ e\<close> has at most 53 bits.\<close>

fun exponent :: "nat \<Rightarrow> nat" where
  "exponent n = (if n < 2 ^ 53 then 0 else exponent (n div 2) + 1)"

declare exponent.simps [simp del]

text \<open>A natural number rounded to 53 significant bits, to nearest, ties to even.\<close>

definition round53 :: "nat \<Rightarrow> nat" where
  "round53 n =
     (let e = exponent n; q = n div 2 ^ e; r = n mod 2 ^ e;
          q' = (if 2 * r > 2 ^ e \<or> (2 * r = 2 ^ e \<and> odd q) then q + 1 else q)
      in q' * 2 ^ e)"

text \<open>The double nearest to a natural number.\<close>

definition to_double :: "nat \<Rightarrow> number" where
  "to_double n = (let m = round53 n in if m < 2 ^ 1024 then Fin (int m) else Infinity)"

text \<open>\<^verbatim>\<open>x > k\<close> and \<^verbatim>\<open>x <= k\<close> for a double \<open>x\<close> and an integer \<open>k\<close>.\<close>

definition more_than :: "number \<Rightarrow> int \<Rightarrow> bool" where
  "more_than x k = (case x of Fin m \<Rightarrow> m > k | Infinity \<Rightarrow> True)"

definition at_most :: "number \<Rightarrow> int \<Rightarrow> bool" where
  "at_most x k = (case x of Fin m \<Rightarrow> m \<le> k | Infinity \<Rightarrow> False)"

text \<open>
  \<^verbatim>\<open>x * 2\<close> for a double that is a non-negative integer or \<^verbatim>\<open>Infinity\<close>: doubling is
  exact, and overflows to \<^verbatim>\<open>Infinity\<close> from \<open>2 ^ 1024\<close> on.
\<close>

definition times_two :: "number \<Rightarrow> number" where
  "times_two x =
     (case x of
        Fin m \<Rightarrow> if 2 * m < 2 ^ 1024 then Fin (2 * m) else Infinity
      | Infinity \<Rightarrow> Infinity)"

text \<open>
  \<^verbatim>\<open>Number.parseInt(s)\<close> with no radix, on the strings the scraper passes: it reads the
  longest prefix of decimal digits and returns the double nearest to their value. (For
  more than 20 significant digits the language lets an implementation read the later
  digits as zeros; the model rounds the exact value, as V8 does.) Every argument in this
  program is a non-empty string of digits (\<open>pararius_price_arg_digits\<close>,
  \<open>funda_price_arg_digits\<close>, \<open>rooms_arg_digits\<close>), so the sign, the leading white space,
  the \<^verbatim>\<open>0x\<close> prefix and the \<^verbatim>\<open>NaN\<close> of an empty prefix never arise.
\<close>

definition parseInt :: "ustring \<Rightarrow> number" where
  "parseInt s = to_double (digits_value (takeWhile is_digit s))"

section \<open>The patterns\<close>

text \<open>
  \<^verbatim>\<open>text.match(re)\<close> with a pattern without the global flag tries the pattern at every
  position from the left and returns the first match; here only group 1 is read.
  \<open>search\<close> is that scan, for a function that matches the pattern at the start of a
  string and returns group 1.
\<close>

fun search :: "(ustring \<Rightarrow> ustring option) \<Rightarrow> ustring \<Rightarrow> ustring option" where
  "search here [] = here []"
| "search here (c # s) =
     (case here (c # s) of Some g \<Rightarrow> Some g | None \<Rightarrow> search here s)"

text \<open>
  The group \<^verbatim>\<open>(\d+(?:c\d+)?)\<close> at the start of a string, for a separator \<open>c\<close>: the
  longest run of digits, which must not be empty; then, when the separator and at least
  one digit follow, the separator and the longest run of digits after it. (The greedy
  \<^verbatim>\<open>\d+\<close> never gives a digit back, since what follows it may match the empty string.)
\<close>

definition number_group :: "16 word \<Rightarrow> ustring \<Rightarrow> ustring option" where
  "number_group c s =
     (let ds = takeWhile is_digit s; rest = dropWhile is_digit s in
      if ds = [] then None
      else (case rest of
              [] \<Rightarrow> Some ds
            | x # after \<Rightarrow>
                if x = c \<and> takeWhile is_digit after \<noteq> []
                then Some (ds @ x # takeWhile is_digit after)
                else Some ds))"

text \<open>
  Pararius, \<^verbatim>\<open>/\<euro>?(\d+(?:,\d+)?)/\<close> (the first character of the pattern is the euro
  sign): the optional euro sign is taken when it is there, and given back when the
  group does not match after it.
\<close>

definition pararius_price_here :: "ustring \<Rightarrow> ustring option" where
  "pararius_price_here s =
     (case (case s of c # t \<Rightarrow> if c = euro then number_group (of_char CHR '','') t else None
                    | [] \<Rightarrow> None) of
        Some g \<Rightarrow> Some g
      | None \<Rightarrow> number_group (of_char CHR '','') s)"

text \<open>
  Funda, \<^verbatim>\<open>/\<euro>?\s*(\d+(?:\.\d+)?)/\<close>: an optional euro sign, any white space, and the
  group with a full stop as separator.
\<close>

definition funda_price_here :: "ustring \<Rightarrow> ustring option" where
  "funda_price_here s =
     (case (case s of c # t \<Rightarrow>
                     if c = euro then number_group (of_char CHR ''.'') (dropWhile is_space t)
                     else None
                    | [] \<Rightarrow> None) of
        Some g \<Rightarrow> Some g
      | None \<Rightarrow> number_group (of_char CHR ''.'') (dropWhile is_space s))"

text \<open>Both sources, \<^verbatim>\<open>/(\d+)/\<close>: the first run of digits.\<close>

definition rooms_here :: "ustring \<Rightarrow> ustring option" where
  "rooms_here s = (let ds = takeWhile is_digit s in if ds = [] then None else Some ds)"

text \<open>
  \<^verbatim>\<open>priceText?.match(...)\<close> and the \<^verbatim>\<open>price\<close> of lines 100-101 and 221-222: a \<^verbatim>\<open>null\<close>
  text has no match, and no match gives 0.
\<close>

definition pararius_price :: "ustring option \<Rightarrow> number" where
  "pararius_price priceText =
     (case (case priceText of None \<Rightarrow> None | Some s \<Rightarrow> search pararius_price_here s) of
        Some g \<Rightarrow> parseInt (replace_first (of_char CHR '','') g)
      | None \<Rightarrow> Fin 0)"

definition funda_price :: "ustring option \<Rightarrow> number" where
  "funda_price priceText =
     (case (case priceText of None \<Rightarrow> None | Some s \<Rightarrow> search funda_price_here s) of
        Some g \<Rightarrow> parseInt (replace_first (of_char CHR ''.'') g)
      | None \<Rightarrow> Fin 0)"

text \<open>Lines 102-103 and 223-224: the rooms, 2 when the text has no digit.\<close>

definition parse_rooms :: "ustring option \<Rightarrow> number" where
  "parse_rooms roomsText =
     (case (case roomsText of None \<Rightarrow> None | Some s \<Rightarrow> search rooms_here s) of
        Some g \<Rightarrow> parseInt g
      | None \<Rightarrow> Fin 2)"

section \<open>The world outside the scraper\<close>

text \<open>
  Every call into Playwright, the file system, the clock and the random number generator
  is answered by the environment. A call that can reject or throw has an outcome in
  \<open>js_error + 'a\<close>, \<open>Inl\<close> being the error thrown. Console output and the image files
  that a screenshot writes are not part of the model.
\<close>

datatype js_error = JsError string

text \<open>
  An \<^verbatim>\<open>ElementHandle\<close> found inside a listing: what \<^verbatim>\<open>textContent()\<close>,
  \<^verbatim>\<open>getAttribute('href')\<close> and \<^verbatim>\<open>screenshot(...)\<close> do on it. A text or an attribute may
  be \<^verbatim>\<open>null\<close> (\<open>None\<close>).
\<close>

record handle =
  textContent :: "js_error + ustring option"
  getAttribute_href :: "js_error + ustring option"
  screenshot :: "js_error + unit"

text \<open>
  The \<^verbatim>\<open>ElementHandle\<close> of one listing: \<^verbatim>\<open>element.$(selector)\<close> gives a handle, or
  \<^verbatim>\<open>null\<close> when the selector matches nothing.
\<close>

record listing =
  query :: "string \<Rightarrow> js_error + handle option"

text \<open>
  A page: the outcome of each call the scraper makes on it. \<^verbatim>\<open>goto\<close> is asked by URL,
  \<^verbatim>\<open>click\<close>, \<^verbatim>\<open>waitForSelector\<close> and \<^verbatim>\<open>$$\<close> by selector, and \<^verbatim>\<open>waitForTimeout\<close> by the
  index of the loop iteration that calls it. (Playwright's \<^verbatim>\<open>Page\<close> has no method
  \<^verbatim>\<open>setUserAgent\<close>: on such a page the call of line 53 throws a \<^verbatim>\<open>TypeError\<close>.)
\<close>

record page =
  setViewportSize :: "js_error + unit"
  setUserAgent :: "js_error + unit"
  goto :: "string \<Rightarrow> js_error + unit"
  click :: "string \<Rightarrow> js_error + unit"
  waitForSelector :: "string \<Rightarrow> js_error + unit"
  queryAll :: "string \<Rightarrow> js_error + listing list"
  waitForTimeout :: "nat \<Rightarrow> js_error + unit"
  close :: "js_error + unit"

datatype Browser = Browser nat

text \<open>
  The environment of a run: the outcome of \<^verbatim>\<open>chromium.launch\<close>, of \<^verbatim>\<open>browser.close()\<close>,
  of the successive \<^verbatim>\<open>browser.newPage()\<close> calls, of \<^verbatim>\<open>fs.access\<close> and \<^verbatim>\<open>fs.mkdir\<close> on the
  screenshot directory, and the successive values of \<^verbatim>\<open>Date.now()\<close> and
  \<^verbatim>\<open>Math.random()\<close>. A value of \<^verbatim>\<open>Math.random()\<close> is a double in the unit interval, given
  as \<open>(k, q)\<close> for \<open>k / 2 ^ q\<close>.
\<close>

type_synonym dyadic = "nat \<times> nat"

record env =
  launch :: "js_error + Browser"
  browser_close :: "Browser \<Rightarrow> js_error + unit"
  newPage :: "nat \<Rightarrow> js_error + page"
  fs_access :: "js_error + unit"
  fs_mkdir :: "js_error + unit"
  now :: "nat \<Rightarrow> int"
  random :: "nat \<Rightarrow> dyadic"

text \<open>
  The state: the field \<^verbatim>\<open>this.browser\<close> of the scraper, the browser sessions launched
  and not yet closed, the number of pages open, and how many pages, clock readings and
  random numbers have been taken from the environment.
\<close>

record world =
  browser :: "Browser option"
  running :: "Browser set"
  open_pages :: nat
  pages_made :: nat
  ticks :: nat
  draws :: nat

definition Date_now :: "env \<Rightarrow> world \<Rightarrow> int \<times> world" where
  "Date_now e w = (now e (ticks w), w\<lparr>ticks := ticks w + 1\<rparr>)"

definition Math_random :: "env \<Rightarrow> world \<Rightarrow> dyadic \<times> world" where
  "Math_random e w = (random e (draws w), w\<lparr>draws := draws w + 1\<rparr>)"

text \<open>
  \<^verbatim>\<open>await m\<close> followed by the rest of the block: when \<open>m\<close> throws, the rest is skipped
  and the error goes to the enclosing handler.
\<close>

definition await :: "'e + 'a \<Rightarrow> ('a \<Rightarrow> 'e + 'b) \<Rightarrow> 'e + 'b" where
  "await m k = (case m of Inl err \<Rightarrow> Inl err | Inr a \<Rightarrow> k a)"

section \<open>The scraper\<close>

subsection \<open>The browser session (lines 13-41)\<close>

definition initBrowser :: "env \<Rightarrow> world \<Rightarrow> (js_error + unit) \<times> world" where
  "initBrowser e w =
     (case browser w of
        Some b \<Rightarrow> (Inr (), w)
      | None \<Rightarrow>
          (case launch e of
             Inl err \<Rightarrow> (Inl err, w)
           | Inr b \<Rightarrow> (Inr (), w\<lparr>browser := Some b, running := insert b (running w)\<rparr>)))"

text \<open>
  Lines 28-33: \<^verbatim>\<open>this.browser = null\<close> comes after the \<^verbatim>\<open>await\<close>, so when
  \<^verbatim>\<open>browser.close()\<close> rejects the field keeps the browser.
\<close>

definition closeBrowser :: "env \<Rightarrow> world \<Rightarrow> (js_error + unit) \<times> world" where
  "closeBrowser e w =
     (case browser w of
        Some b \<Rightarrow>
          (case browser_close e b of
             Inl err \<Rightarrow> (Inl err, w)
           | Inr u \<Rightarrow> (Inr (), w\<lparr>browser := None, running := running w - {b}\<rparr>))
      | None \<Rightarrow> (Inr (), w))"

definition ensureDirectoryExists :: "env \<Rightarrow> js_error + unit" where
  "ensureDirectoryExists e =
     (case fs_access e of
        Inr u \<Rightarrow> Inr ()
      | Inl err \<Rightarrow> fs_mkdir e)"

text \<open>
  \<^verbatim>\<open>this.browser!.newPage()\<close>: on a \<^verbatim>\<open>null\<close> browser the call is a \<^verbatim>\<open>TypeError\<close>.
\<close>

definition browser_newPage :: "env \<Rightarrow> world \<Rightarrow> (js_error + page) \<times> world" where
  "browser_newPage e w =
     (case browser w of
        None \<Rightarrow> (Inl (JsError ''TypeError''), w)
      | Some b \<Rightarrow>
          (case newPage e (pages_made w) of
             Inl err \<Rightarrow> (Inl err, w\<lparr>pages_made := pages_made w + 1\<rparr>)
           | Inr pg \<Rightarrow>
               (Inr pg, w\<lparr>pages_made := pages_made w + 1, open_pages := open_pages w + 1\<rparr>)))"

text \<open>\<^verbatim>\<open>await page.close()\<close>.\<close>

definition page_close :: "page \<Rightarrow> world \<Rightarrow> (js_error + unit) \<times> world" where
  "page_close pg w =
     (case close pg of
        Inl err \<Rightarrow> (Inl err, w)
      | Inr u \<Rightarrow> (Inr (), w\<lparr>open_pages := open_pages w - 1\<rparr>))"

subsection \<open>The record\<close>

text \<open>
  \<^verbatim>\<open>PropertyWithScreenshot\<close>, with the fields of the object literal of lines 125-149 and
  245-269. \<open>interior\<close> and \<open>energyLabel\<close> are read from an array at a random index, so
  they are \<^verbatim>\<open>undefined\<close> (\<open>None\<close>) if the index leaves the array.
\<close>

record property =
  id' :: ustring
  title :: ustring
  price :: number
  location :: ustring
  size' :: ustring
  rooms :: number
  source :: ustring
  sourceUrl :: ustring
  listedDays :: int
  image' :: ustring
  images :: "ustring list"
  description :: ustring
  type :: ustring
  available :: ustring
  realEstateAgent :: ustring
  neighborhood :: ustring
  buildYear :: ustring
  interior :: "ustring option"
  fullDescription :: ustring
  features :: "ustring list"
  energyLabel :: "ustring option"
  deposit :: number
  screenshotPath :: ustring

text \<open>What lines 83-97 and 206-219 read from one listing.\<close>

record extracted =
  x_title :: "ustring option"
  x_priceText :: "ustring option"
  x_location :: "ustring option"
  x_sizeText :: "ustring option"
  x_roomsText :: "ustring option"
  x_propertyUrl :: "ustring option"
  x_imageElement :: "handle option"

text \<open>\<^verbatim>\<open>el ? await el.textContent() : d\<close> and \<^verbatim>\<open>el ? await el.getAttribute('href') : d\<close>.\<close>

definition text_or :: "handle option \<Rightarrow> ustring \<Rightarrow> js_error + ustring option" where
  "text_or el d = (case el of None \<Rightarrow> Inr (Some d) | Some h \<Rightarrow> textContent h)"

definition href_or :: "handle option \<Rightarrow> ustring \<Rightarrow> js_error + ustring option" where
  "href_or el d = (case el of None \<Rightarrow> Inr (Some d) | Some h \<Rightarrow> getAttribute_href h)"

text \<open>Lines 138 and 258.\<close>

definition property_type :: "number \<Rightarrow> ustring" where
  "property_type r =
     (if r = Fin 1 then str ''Studio''
      else if at_most r 2 then str ''Apartment''
      else str ''House'')"

text \<open>Lines 147 and 267.\<close>

definition property_deposit :: "number \<Rightarrow> number" where
  "property_deposit p = (if more_than p 0 then times_two p else Fin 1000)"

text \<open>
  \<^verbatim>\<open>Math.floor(r * n)\<close> for the double \<open>r = k / 2 ^ q\<close> and a small integer \<open>n\<close>: the
  product \<open>k * n / 2 ^ q\<close> is rounded to a double, that is to 53 significant bits,
  before the floor is taken.
\<close>

definition floor_times :: "dyadic \<Rightarrow> nat \<Rightarrow> int" where
  "floor_times r n = (case r of (k, q) \<Rightarrow> int (round53 (k * n) div 2 ^ q))"

text \<open>\<^verbatim>\<open>xs[Math.floor(r * 3)]\<close>.\<close>

definition pick3 :: "ustring list \<Rightarrow> dyadic \<Rightarrow> ustring option" where
  "pick3 xs r = at_index xs (nat (floor_times r 3))"

subsection \<open>One listing (lines 80-149 and 203-269)\<close>

definition pararius_extract :: "nat \<Rightarrow> listing \<Rightarrow> js_error + extracted" where
  \<open>pararius_extract i element =
     await (query element ''h2, [data-testid="property-title"]'') (\<lambda>titleElement.
     await (query element ''[data-testid="price"]'') (\<lambda>priceElement.
     await (query element ''[data-testid="location"]'') (\<lambda>locationElement.
     await (query element ''[data-testid="size"]'') (\<lambda>sizeElement.
     await (query element ''[data-testid="rooms"]'') (\<lambda>roomsElement.
     await (query element ''a'') (\<lambda>linkElement.
     await (query element ''img'') (\<lambda>imageElement.
     await (text_or titleElement (str ''Property '' @ show_nat (i + 1))) (\<lambda>title.
     await (text_or priceElement (str ''0'')) (\<lambda>priceText.
     await (text_or locationElement (str ''Groningen'')) (\<lambda>location.
     await (text_or sizeElement (str ''50m'' @ [superscript_two])) (\<lambda>sizeText.
     await (text_or roomsElement (str ''2'')) (\<lambda>roomsText.
     await (href_or linkElement []) (\<lambda>propertyUrl.
     Inr \<lparr>x_title = title, x_priceText = priceText, x_location = location,
          x_sizeText = sizeText, x_roomsText = roomsText, x_propertyUrl = propertyUrl,
          x_imageElement = imageElement\<rparr>)))))))))))))\<close>

definition funda_extract :: "nat \<Rightarrow> listing \<Rightarrow> js_error + extracted" where
  \<open>funda_extract i element =
     await (query element ''h2, [data-test-id="street-name-house-number"]'') (\<lambda>titleElement.
     await (query element ''[data-test-id="price-rent"]'') (\<lambda>priceElement.
     await (query element ''[data-test-id="city"]'') (\<lambda>locationElement.
     await (query element ''[data-test-id="surface"]'') (\<lambda>sizeElement.
     await (query element ''[data-test-id="number-of-rooms"]'') (\<lambda>roomsElement.
     await (query element ''a'') (\<lambda>linkElement.
     await (query element ''img'') (\<lambda>imageElement.
     await (text_or titleElement (str ''Funda Property '' @ show_nat (i + 1))) (\<lambda>title.
     await (text_or priceElement (str ''0'')) (\<lambda>priceText.
     await (text_or locationElement (str ''Groningen'')) (\<lambda>location.
     await (text_or sizeElement (str ''50m'' @ [superscript_two])) (\<lambda>sizeText.
     await (text_or roomsElement (str ''2'')) (\<lambda>roomsText.
     await (href_or linkElement []) (\<lambda>propertyUrl.
     Inr \<lparr>x_title = title, x_priceText = priceText, x_location = location,
          x_sizeText = sizeText, x_roomsText = roomsText, x_propertyUrl = propertyUrl,
          x_imageElement = imageElement\<rparr>)))))))))))))\<close>

text \<open>
  Lines 106-123 and 227-243, for the file name prefix \<^verbatim>\<open>pararius-\<close> or \<^verbatim>\<open>funda-\<close>: with no
  image element the path stays empty; otherwise the clock is read for the file name, and
  a screenshot that throws is caught and leaves the path empty.
\<close>

definition take_screenshot ::
  "ustring \<Rightarrow> env \<Rightarrow> nat \<Rightarrow> handle option \<Rightarrow> world \<Rightarrow> ustring \<times> world" where
  "take_screenshot prefix e i imageElement w =
     (case imageElement of
        None \<Rightarrow> ([], w)
      | Some h \<Rightarrow>
          (let (t, w1) = Date_now e w;
               screenshotFilename =
                 prefix @ show_nat (i + 1) @ str ''-'' @ show_int t @ str ''.png''
           in case screenshot h of
                Inr u \<Rightarrow> (str ''/property-images/'' @ screenshotFilename, w1)
              | Inl screenshotError \<Rightarrow> ([], w1)))"

text \<open>
  The object literal of lines 125-149, for the clock reading \<open>t\<close> and the four random
  numbers it takes, in the order of the fields.
\<close>

definition pararius_record ::
  "nat \<Rightarrow> extracted \<Rightarrow> ustring \<Rightarrow> int \<Rightarrow> dyadic \<Rightarrow> dyadic \<Rightarrow> dyadic \<Rightarrow> dyadic \<Rightarrow> property" where
  "pararius_record i x shot t r1 r2 r3 r4 =
     \<lparr>id' = str ''pararius-screenshot-'' @ show_int t @ str ''-'' @ show_nat i,
      title = or_default (map_option trim (x_title x))
                (str ''Pararius Property '' @ show_nat (i + 1)),
      price = pararius_price (x_priceText x),
      location = or_default (map_option trim (x_location x)) (str ''Groningen''),
      size' = or_default (map_option trim (x_sizeText x)) (str ''50m'' @ [superscript_two]),
      rooms = parse_rooms (x_roomsText x),
      source = str ''Pararius'',
      sourceUrl =
        (case x_propertyUrl x of
           Some u \<Rightarrow> if startsWith u (str ''http'') then u else str ''https://pararius.com'' @ u
         | None \<Rightarrow> str ''https://pararius.com'' @ str ''null''),
      listedDays = floor_times r1 3,
      image' = shot,
      images = (if shot = [] then [] else [shot]),
      description =
        tpl_null (x_title x) @ str '' in '' @ tpl_null (x_location x) @
        str ''. Professional real estate listing from Pararius.'',
      type = property_type (parse_rooms (x_roomsText x)),
      available = str ''Available now'',
      realEstateAgent = str ''Pararius Partner'',
      neighborhood =
        or_default
          (map_option (replace_first (of_char CHR '')''))
             (case x_location x of
                None \<Rightarrow> None
              | Some l \<Rightarrow> at_index (split_on (of_char CHR ''('') l) 1))
          (str ''Centrum''),
      buildYear = show_int (1950 + floor_times r2 70),
      interior = pick3 [str ''Furnished'', str ''Upholstered'', str ''Shell''] r3,
      fullDescription =
        str ''Beautiful property in '' @ tpl_null (x_location x) @
        str ''. Contact agent for viewing and more details.'',
      features = [str ''Kitchen'', str ''Bathroom'', str ''Internet''],
      energyLabel = pick3 [str ''A'', str ''B'', str ''C''] r4,
      deposit = property_deposit (pararius_price (x_priceText x)),
      screenshotPath = shot\<rparr>"

text \<open>The object literal of lines 245-269.\<close>

definition funda_record ::
  "nat \<Rightarrow> extracted \<Rightarrow> ustring \<Rightarrow> int \<Rightarrow> dyadic \<Rightarrow> dyadic \<Rightarrow> dyadic \<Rightarrow> dyadic \<Rightarrow> property" where
  "funda_record i x shot t r1 r2 r3 r4 =
     \<lparr>id' = str ''funda-screenshot-'' @ show_int t @ str ''-'' @ show_nat i,
      title = or_default (map_option trim (x_title x))
                (str ''Funda Property '' @ show_nat (i + 1)),
      price = funda_price (x_priceText x),
      location = str ''Groningen '' @ tpl_undefined (map_option trim (x_location x)),
      size' = or_default (map_option trim (x_sizeText x)) (str ''50m'' @ [superscript_two]),
      rooms = parse_rooms (x_roomsText x),
      source = str ''Funda'',
      sourceUrl =
        (case x_propertyUrl x of
           Some u \<Rightarrow> if startsWith u (str ''http'') then u else str ''https://www.funda.nl'' @ u
         | None \<Rightarrow> str ''https://www.funda.nl'' @ str ''null''),
      listedDays = floor_times r1 4,
      image' = shot,
      images = (if shot = [] then [] else [shot]),
      description =
        tpl_null (x_title x) @ str '' in '' @ tpl_null (x_location x) @
        str ''. Quality listing from Funda.'',
      type = property_type (parse_rooms (x_roomsText x)),
      available = str ''Available now'',
      realEstateAgent = str ''Funda Partner'',
      neighborhood = or_default (map_option trim (x_location x)) (str ''Centrum''),
      buildYear = show_int (1950 + floor_times r2 70),
      interior = pick3 [str ''Furnished'', str ''Upholstered'', str ''Shell''] r3,
      fullDescription =
        str ''Quality property in '' @ tpl_null (x_location x) @
        str ''. Professional listing with full details.'',
      features = [str ''Kitchen'', str ''Bathroom'', str ''Internet''],
      energyLabel = pick3 [str ''A'', str ''B'', str ''C''] r4,
      deposit = property_deposit (funda_price (x_priceText x)),
      screenshotPath = shot\<rparr>"

text \<open>
  Building the record reads the clock once (for the id) and the random number generator
  four times (\<open>listedDays\<close>, \<open>buildYear\<close>, \<open>interior\<close>, \<open>energyLabel\<close>).
\<close>

definition build_property ::
  "(int \<Rightarrow> dyadic \<Rightarrow> dyadic \<Rightarrow> dyadic \<Rightarrow> dyadic \<Rightarrow> property) \<Rightarrow> env \<Rightarrow> world \<Rightarrow>
   property \<times> world" where
  "build_property mk e w =
     (let (t, w1) = Date_now e w;
          (r1, w2) = Math_random e w1;
          (r2, w3) = Math_random e w2;
          (r3, w4) = Math_random e w3;
          (r4, w5) = Math_random e w4
      in (mk t r1 r2 r3 r4, w5))"

text \<open>
  The body of the inner \<^verbatim>\<open>try\<close> up to the record: an error thrown while the listing is
  read leaves the body; a failed screenshot does not.
\<close>

definition pararius_element ::
  "env \<Rightarrow> nat \<Rightarrow> listing \<Rightarrow> world \<Rightarrow> (js_error + property) \<times> world" where
  "pararius_element e i element w =
     (case pararius_extract i element of
        Inl err \<Rightarrow> (Inl err, w)
      | Inr x \<Rightarrow>
          (let (screenshotPath, w1) =
                 take_screenshot (str ''pararius-'') e i (x_imageElement x) w;
               (p, w2) = build_property (pararius_record i x screenshotPath) e w1
           in (Inr p, w2)))"

definition funda_element ::
  "env \<Rightarrow> nat \<Rightarrow> listing \<Rightarrow> world \<Rightarrow> (js_error + property) \<times> world" where
  "funda_element e i element w =
     (case funda_extract i element of
        Inl err \<Rightarrow> (Inl err, w)
      | Inr x \<Rightarrow>
          (let (screenshotPath, w1) =
                 take_screenshot (str ''funda-'') e i (x_imageElement x) w;
               (p, w2) = build_property (funda_record i x screenshotPath) e w1
           in (Inr p, w2)))"

subsection \<open>The loop over the listings (lines 78-159 and 201-277)\<close>

text \<open>
  One iteration, the inner \<^verbatim>\<open>try\<close> with its \<^verbatim>\<open>catch\<close>: an error of the body is caught
  and the listing is skipped; otherwise the record is pushed, and an error of the
  \<^verbatim>\<open>waitForTimeout\<close> after the push is caught as well.
\<close>

definition element_step ::
  "(nat \<Rightarrow> listing \<Rightarrow> world \<Rightarrow> (js_error + property) \<times> world) \<Rightarrow> page \<Rightarrow> nat \<Rightarrow> listing \<Rightarrow>
   property list \<Rightarrow> world \<Rightarrow> property list \<times> world" where
  "element_step body pg i element properties w =
     (case body i element w of
        (Inl err, w1) \<Rightarrow> (properties, w1)
      | (Inr p, w1) \<Rightarrow>
          (case waitForTimeout pg i of
             Inl err \<Rightarrow> (properties @ [p], w1)
           | Inr u \<Rightarrow> (properties @ [p], w1)))"

text \<open>
  \<^verbatim>\<open>for (let i = 0; i < Math.min(propertyElements.length, cap); i++)\<close>, from the index
  \<open>i\<close> on.
\<close>

function scrape_loop ::
  "(nat \<Rightarrow> listing \<Rightarrow> world \<Rightarrow> (js_error + property) \<times> world) \<Rightarrow> page \<Rightarrow> nat \<Rightarrow> listing list \<Rightarrow>
   nat \<Rightarrow> property list \<Rightarrow> world \<Rightarrow> property list \<times> world" where
  "scrape_loop body pg cap propertyElements i properties w =
     (if i < min (length propertyElements) cap then
        (case element_step body pg i (propertyElements ! i) properties w of
           (properties', w') \<Rightarrow> scrape_loop body pg cap propertyElements (i + 1) properties' w')
      else (properties, w))"
  by pat_completeness auto
termination
  by (relation "measure (\<lambda>(body, pg, cap, els, i, properties, w). min (length els) cap - i)")
    auto

declare scrape_loop.simps [simp del]

subsection \<open>One source (lines 43-170 and 172-288)\<close>

text \<open>\<^verbatim>\<open>try { await m } catch { }\<close>: the cookie banner may be absent.\<close>

definition swallow :: "js_error + unit \<Rightarrow> js_error + unit" where
  "swallow m = (case m of Inl err \<Rightarrow> Inr () | Inr u \<Rightarrow> Inr ())"

text \<open>The outer \<^verbatim>\<open>try\<close> block up to the loop: the listing elements, or the error thrown.\<close>

definition pararius_open :: "env \<Rightarrow> page \<Rightarrow> js_error + listing list" where
  \<open>pararius_open e pg =
     await (setViewportSize pg) (\<lambda>u.
     await (setUserAgent pg) (\<lambda>u.
     await (goto pg ''https://pararius.com/apartments/groningen'') (\<lambda>u.
     await (swallow (click pg ''button:has-text("Accept")'')) (\<lambda>u.
     await (waitForSelector pg ''[data-testid="search-list-item"]'') (\<lambda>u.
     await (queryAll pg ''[data-testid="search-list-item"]'') (\<lambda>propertyElements.
     await (ensureDirectoryExists e) (\<lambda>u.
     Inr propertyElements)))))))\<close>

definition funda_open :: "env \<Rightarrow> page \<Rightarrow> js_error + listing list" where
  \<open>funda_open e pg =
     await (setViewportSize pg) (\<lambda>u.
     await (goto pg ''https://www.funda.nl/huur/groningen/'') (\<lambda>u.
     await (swallow (click pg ''button:has-text("Akkoord")'')) (\<lambda>u.
     await (waitForSelector pg ''[data-test-id="search-result-item"]'') (\<lambda>u.
     await (queryAll pg ''[data-test-id="search-result-item"]'') (\<lambda>propertyElements.
     await (ensureDirectoryExists e) (\<lambda>u.
     Inr propertyElements))))))\<close>

text \<open>The outer \<^verbatim>\<open>try\<close> block: the list it returns, or the error that leaves it.\<close>

definition pararius_try :: "env \<Rightarrow> page \<Rightarrow> world \<Rightarrow> (js_error + property list) \<times> world" where
  "pararius_try e pg w =
     (case pararius_open e pg of
        Inl err \<Rightarrow> (Inl err, w)
      | Inr propertyElements \<Rightarrow>
          (case scrape_loop (pararius_element e) pg 20 propertyElements 0 [] w of
             (properties, w') \<Rightarrow> (Inr properties, w')))"

definition funda_try :: "env \<Rightarrow> page \<Rightarrow> world \<Rightarrow> (js_error + property list) \<times> world" where
  "funda_try e pg w =
     (case funda_open e pg of
        Inl err \<Rightarrow> (Inl err, w)
      | Inr propertyElements \<Rightarrow>
          (case scrape_loop (funda_element e) pg 15 propertyElements 0 [] w of
             (properties, w') \<Rightarrow> (Inr properties, w')))"

text \<open>
  The whole operation: the browser and the page are made before the \<^verbatim>\<open>try\<close>, so their
  errors leave the operation; an error of the \<^verbatim>\<open>try\<close> block is caught and gives the
  empty list; the \<^verbatim>\<open>finally\<close> closes the page on every way out of the block, and when
  \<^verbatim>\<open>page.close()\<close> rejects, its error replaces the list that was to be returned.
\<close>

definition scrape_source ::
  "(env \<Rightarrow> page \<Rightarrow> world \<Rightarrow> (js_error + property list) \<times> world) \<Rightarrow> env \<Rightarrow> world \<Rightarrow>
   (js_error + property list) \<times> world" where
  "scrape_source try_block e w =
     (case initBrowser e w of
        (Inl err, w1) \<Rightarrow> (Inl err, w1)
      | (Inr u, w1) \<Rightarrow>
          (case browser_newPage e w1 of
             (Inl err, w2) \<Rightarrow> (Inl err, w2)
           | (Inr pg, w2) \<Rightarrow>
               (case try_block e pg w2 of
                  (r, w3) \<Rightarrow>
                    (case page_close pg w3 of
                       (Inl err, w4) \<Rightarrow> (Inl err, w4)
                     | (Inr u, w4) \<Rightarrow>
                         (Inr (case r of Inl err \<Rightarrow> [] | Inr properties \<Rightarrow> properties), w4)))))"

definition scrapeParariusWithScreenshots ::
  "env \<Rightarrow> world \<Rightarrow> (js_error + property list) \<times> world" where
  "scrapeParariusWithScreenshots e w = scrape_source pararius_try e w"

definition scrapeFundaWithScreenshots ::
  "env \<Rightarrow> world \<Rightarrow> (js_error + property list) \<times> world" where
  "scrapeFundaWithScreenshots e w = scrape_source funda_try e w"

subsection \<open>Both sources (lines 290-314)\<close>

text \<open>
  The \<^verbatim>\<open>try\<close> block of \<^verbatim>\<open>scrapeAllWithScreenshots\<close>. \<^verbatim>\<open>Array.prototype.sort\<close> with the
  comparator \<^verbatim>\<open>(a, b) => a.listedDays - b.listedDays\<close> is a stable sort by that key.
\<close>

definition scrapeAll_try :: "env \<Rightarrow> world \<Rightarrow> (js_error + property list) \<times> world" where
  "scrapeAll_try e w =
     (case scrapeParariusWithScreenshots e w of
        (Inl err, w1) \<Rightarrow> (Inl err, w1)
      | (Inr parariusProperties, w1) \<Rightarrow>
          (case scrapeFundaWithScreenshots e w1 of
             (Inl err, w2) \<Rightarrow> (Inl err, w2)
           | (Inr fundaProperties, w2) \<Rightarrow>
               (Inr (sort_key listedDays (parariusProperties @ fundaProperties)), w2)))"

text \<open>
  The browser is made before the \<^verbatim>\<open>try\<close>; the \<^verbatim>\<open>finally\<close> closes it, and when
  \<^verbatim>\<open>closeBrowser\<close> rejects, its error replaces the result of the \<^verbatim>\<open>try\<close> block.
\<close>

definition scrapeAllWithScreenshots ::
  "env \<Rightarrow> world \<Rightarrow> (js_error + property list) \<times> world" where
  "scrapeAllWithScreenshots e w =
     (case initBrowser e w of
        (Inl err, w1) \<Rightarrow> (Inl err, w1)
      | (Inr u, w1) \<Rightarrow>
          (case scrapeAll_try e w1 of
             (r, w2) \<Rightarrow>
               (case closeBrowser e w2 of
                  (Inl err, w3) \<Rightarrow> (Inl err, w3)
                | (Inr u, w3) \<Rightarrow> (r, w3))))"

section \<open>A sample run\<close>

text \<open>
  A concrete environment, on which the theorems below are instantiated. Its pages are
  Playwright pages: \<^verbatim>\<open>setUserAgent\<close> throws on them. The Pararius page has a complete
  listing and a listing in which no selector matches. The Funda page has a listing whose
  screenshot fails, a listing that advertises no rooms, a listing whose every query
  throws, a complete listing, and a listing in which no selector matches.
\<close>

definition text_handle :: "ustring \<Rightarrow> handle" where
  "text_handle s =
     \<lparr>textContent = Inr (Some s), getAttribute_href = Inr None, screenshot = Inr ()\<rparr>"

definition link_handle :: "ustring \<Rightarrow> handle" where
  "link_handle s =
     \<lparr>textContent = Inr (Some []), getAttribute_href = Inr (Some s), screenshot = Inr ()\<rparr>"

definition image_handle :: "bool \<Rightarrow> handle" where
  "image_handle ok =
     \<lparr>textContent = Inr (Some []), getAttribute_href = Inr None,
      screenshot = (if ok then Inr () else Inl (JsError ''screenshot failed''))\<rparr>"

definition bare_listing :: listing where
  "bare_listing = \<lparr>query = (\<lambda>sel. Inr None)\<rparr>"

definition broken_listing :: listing where
  "broken_listing = \<lparr>query = (\<lambda>sel. Inl (JsError ''detached''))\<rparr>"

definition pararius_listing :: listing where
  \<open>pararius_listing =
     \<lparr>query = (\<lambda>sel.
        if sel = ''h2, [data-testid="property-title"]''
          then Inr (Some (text_handle (str '' Nice flat '')))
        else if sel = ''[data-testid="price"]''
          then Inr (Some (text_handle (euro # str ''1,250 per month'')))
        else if sel = ''[data-testid="location"]''
          then Inr (Some (text_handle (str ''9711 AB Groningen (Binnenstad)'')))
        else if sel = ''[data-testid="rooms"]''
          then Inr (Some (text_handle (str ''3 rooms'')))
        else if sel = ''a'' then Inr (Some (link_handle (str ''/apartment/1'')))
        else if sel = ''img'' then Inr (Some (image_handle True))
        else Inr None)\<rparr>\<close>

definition funda_listing :: listing where
  \<open>funda_listing =
     \<lparr>query = (\<lambda>sel.
        if sel = ''[data-test-id="price-rent"]''
          then Inr (Some (text_handle (euro # str '' 1.250 /mnd'')))
        else if sel = ''[data-test-id="number-of-rooms"]''
          then Inr (Some (text_handle (str ''1 kamer'')))
        else if sel = ''img'' then Inr (Some (image_handle False))
        else Inr None)\<rparr>\<close>

definition roomless_listing :: listing where
  \<open>roomless_listing =
     \<lparr>query = (\<lambda>sel.
        if sel = ''[data-test-id="number-of-rooms"]''
          then Inr (Some (text_handle (str ''0 kamers'')))
        else Inr None)\<rparr>\<close>

definition family_listing :: listing where
  \<open>family_listing =
     \<lparr>query = (\<lambda>sel.
        if sel = ''h2, [data-test-id="street-name-house-number"]''
          then Inr (Some (text_handle (str '' Herestraat 12 '')))
        else if sel = ''[data-test-id="price-rent"]''
          then Inr (Some (text_handle (euro # str '' 2.100 per maand'')))
        else if sel = ''[data-test-id="city"]''
          then Inr (Some (text_handle (str ''Centrum'')))
        else if sel = ''[data-test-id="number-of-rooms"]''
          then Inr (Some (text_handle (str ''4 kamers'')))
        else if sel = ''a'' then Inr (Some (link_handle (str ''/huur/groningen/huis-1/'')))
        else if sel = ''img'' then Inr (Some (image_handle True))
        else Inr None)\<rparr>\<close>

text \<open>The text of a price of 309 digits: a one and 308 zeros.\<close>

definition lavish_price :: ustring where
  "lavish_price = str ''100000000000000000000000000000000000000000000000000000000000000000000000000000000000000000000000000000000000000000000000000000000000000000000000000000000000000000000000000000000000000000000000000000000000000000000000000000000000000000000000000000000000000000000000000000000000000000000000000000000000000000000''"

definition lavish_listing :: listing where
  \<open>lavish_listing =
     \<lparr>query = (\<lambda>sel.
        if sel = ''[data-test-id="price-rent"]'' then Inr (Some (text_handle lavish_price))
        else Inr None)\<rparr>\<close>

definition demo_page :: "listing list \<Rightarrow> page" where
  "demo_page els =
     \<lparr>setViewportSize = Inr (),
      setUserAgent = Inl (JsError ''TypeError: page.setUserAgent is not a function''),
      goto = (\<lambda>url. Inr ()),
      click = (\<lambda>sel. Inl (JsError ''timeout'')), waitForSelector = (\<lambda>sel. Inr ()),
      queryAll = (\<lambda>sel. Inr els), waitForTimeout = (\<lambda>i. Inr ()), close = Inr ()\<rparr>"

text \<open>A page that cannot be reached.\<close>

definition dead_page :: page where
  "dead_page =
     (demo_page [])\<lparr>goto := (\<lambda>url. Inl (JsError ''net::ERR_NAME_NOT_RESOLVED''))\<rparr>"

text \<open>A page that cannot be reached and whose \<^verbatim>\<open>close\<close> rejects.\<close>

definition jammed_page :: page where
  "jammed_page = dead_page\<lparr>close := Inl (JsError ''close failed'')\<rparr>"

definition demo_env :: env where
  "demo_env =
     \<lparr>launch = Inr (Browser 1),
      browser_close = (\<lambda>b. Inr ()),
      newPage = (\<lambda>n. if n = 0 then Inr (demo_page [pararius_listing, bare_listing])
                      else Inr (demo_page [funda_listing, roomless_listing, broken_listing,
                                            family_listing, bare_listing])),
      fs_access = Inl (JsError ''ENOENT''), fs_mkdir = Inr (),
      now = (\<lambda>n. 1700000000000 + int n),
      random = (\<lambda>n. if n = 0 then (3, 2) else if n = 8 then (1, 1)
                     else if n = 12 then (1, 2) else (0, 0))\<rparr>"

definition world0 :: world where
  "world0 =
     \<lparr>browser = None, running = {}, open_pages = 0, pages_made = 0, ticks = 0, draws = 0\<rparr>"

text \<open>
  What the run on \<open>demo_env\<close> returns: the records of the Funda listings that were read,
  each given by what was read from the listing, the screenshot path, the clock reading
  and the random numbers; and the state the run ends in. The Pararius operation returns
  no record.
\<close>

definition demo_funda0 :: property where
  "demo_funda0 =
     funda_record 0
       \<lparr>x_title = Some (str ''Funda Property 1''),
        x_priceText = Some (euro # str '' 1.250 /mnd''),
        x_location = Some (str ''Groningen''),
        x_sizeText = Some (str ''50m'' @ [superscript_two]),
        x_roomsText = Some (str ''1 kamer''),
        x_propertyUrl = Some [],
        x_imageElement = Some (image_handle False)\<rparr>
       [] 1700000000001 (3, 2) (0, 0) (0, 0) (0, 0)"

definition demo_funda1 :: property where
  "demo_funda1 =
     funda_record 1
       \<lparr>x_title = Some (str ''Funda Property 2''),
        x_priceText = Some (str ''0''),
        x_location = Some (str ''Groningen''),
        x_sizeText = Some (str ''50m'' @ [superscript_two]),
        x_roomsText = Some (str ''0 kamers''),
        x_propertyUrl = Some [],
        x_imageElement = None\<rparr>
       [] 1700000000002 (0, 0) (0, 0) (0, 0) (0, 0)"

definition demo_funda3 :: property where
  "demo_funda3 =
     funda_record 3
       \<lparr>x_title = Some (str '' Herestraat 12 ''),
        x_priceText = Some (euro # str '' 2.100 per maand''),
        x_location = Some (str ''Centrum''),
        x_sizeText = Some (str ''50m'' @ [superscript_two]),
        x_roomsText = Some (str ''4 kamers''),
        x_propertyUrl = Some (str ''/huur/groningen/huis-1/''),
        x_imageElement = Some (image_handle True)\<rparr>
       (str ''/property-images/funda-4-1700000000003.png'') 1700000000004
       (1, 1) (0, 0) (0, 0) (0, 0)"

definition demo_funda4 :: property where
  "demo_funda4 =
     funda_record 4
       \<lparr>x_title = Some (str ''Funda Property 5''),
        x_priceText = Some (str ''0''),
        x_location = Some (str ''Groningen''),
        x_sizeText = Some (str ''50m'' @ [superscript_two]),
        x_roomsText = Some (str ''2''),
        x_propertyUrl = Some [],
        x_imageElement = None\<rparr>
       [] 1700000000005 (1, 2) (0, 0) (0, 0) (0, 0)"

definition demo_final :: world where
  "demo_final =
     \<lparr>browser = None, running = {}, open_pages = 0, pages_made = 2, ticks = 6, draws = 16\<rparr>"


text \<open>An environment in which every page holds 25 listings.\<close>

definition crowded_env :: env where
  "crowded_env = demo_env\<lparr>newPage := (\<lambda>n. Inr (demo_page (replicate 25 bare_listing)))\<rparr>"

text \<open>An environment in which no page can be opened.\<close>

definition pageless_env :: env where
  "pageless_env = demo_env\<lparr>newPage := (\<lambda>n. Inl (JsError ''Target closed''))\<rparr>"

text \<open>An environment in which \<^verbatim>\<open>browser.close()\<close> rejects.\<close>

definition stuck_env :: env where
  "stuck_env = demo_env\<lparr>browser_close := (\<lambda>b. Inl (JsError ''browser.close failed''))\<rparr>"

text \<open>
  An environment in which the first page cannot be reached, and one in which,
  besides, the \<^verbatim>\<open>close\<close> of that page rejects.
\<close>

definition offline_env :: env where
  "offline_env = demo_env\<lparr>newPage := (\<lambda>n. if n = 0 then Inr dead_page else newPage demo_env n)\<rparr>"

definition jammed_env :: env where
  "jammed_env =
     demo_env\<lparr>newPage := (\<lambda>n. if n = 0 then Inr jammed_page else newPage demo_env n)\<rparr>"

text \<open>An environment whose Funda page holds the listing with the price of 309 digits.\<close>

definition lavish_env :: env where
  "lavish_env =
     demo_env\<lparr>newPage := (\<lambda>n. if n = 0 then Inr (demo_page [])
                                 else Inr (demo_page [lavish_listing]))\<rparr>"

definition lavish_record :: property where
  "lavish_record =
     funda_record 0
       \<lparr>x_title = Some (str ''Funda Property 1''),
        x_priceText = Some lavish_price,
        x_location = Some (str ''Groningen''),
        x_sizeText = Some (str ''50m'' @ [superscript_two]),
        x_roomsText = Some (str ''2''),
        x_propertyUrl = Some [],
        x_imageElement = None\<rparr>
       [] 1700000000000 (3, 2) (0, 0) (0, 0) (0, 0)"

section \<open>Auxiliary notions\<close>

text \<open>The number that a string ends with; for an id, the index of its listing.\<close>

definition id_index :: "ustring \<Rightarrow> nat" where
  "id_index s = digits_value (rev (takeWhile is_digit (rev s)))"

text \<open>Two states with the same browser field and the same sessions running.\<close>

definition same_session :: "world \<Rightarrow> world \<Rightarrow> bool" where
  "same_session w w' = (browser w' = browser w \<and> running w' = running w)"

section \<open>Strings and numbers\<close>

lemma unat_digit_char: "d < 10 \<Longrightarrow> unat (digit_char d) = 48 + d"
  unfolding digit_char_def unat_of_nat by simp

lemma is_digit_digit_char: "d < 10 \<Longrightarrow> is_digit (digit_char d)"
  by (simp add: is_digit_def word_le_nat_alt unat_digit_char)

lemma digit_val_digit_char: "d < 10 \<Longrightarrow> digit_val (digit_char d) = d"
  by (simp add: digit_val_def unat_digit_char)

lemma show_nat_digits: "c \<in> set (show_nat n) \<Longrightarrow> is_digit c"
proof (induction n rule: show_nat.induct)
  case (1 n)
  show ?case
  proof (cases "n < 10")
    case True
    with "1.prems" show ?thesis by (simp add: show_nat.simps[of n] is_digit_digit_char)
  next
    case False
    with "1.prems" "1.IH" show ?thesis
      by (auto simp: show_nat.simps[of n] is_digit_digit_char)
  qed
qed

lemma show_nat_nonempty: "show_nat n \<noteq> []"
  by (simp add: show_nat.simps[of n])

lemma digits_value_snoc: "digits_value (ds @ [c]) = 10 * digits_value ds + digit_val c"
  by (simp add: digits_value_def)

lemma digits_value_show_nat: "digits_value (show_nat n) = n"
proof (induction n rule: show_nat.induct)
  case (1 n)
  show ?case
  proof (cases "n < 10")
    case True
    then show ?thesis by (simp add: show_nat.simps[of n] digits_value_def digit_val_digit_char)
  next
    case False
    with "1.IH" show ?thesis
      by (simp add: show_nat.simps[of n] digits_value_snoc digit_val_digit_char)
  qed
qed

lemma id_index_dash: "id_index (a @ str ''-'' @ show_nat i) = i"
proof -
  have nd: "\<not> is_digit (of_char CHR ''-'')" by (simp add: is_digit_def)
  have "rev (a @ str ''-'' @ show_nat i) = rev (show_nat i) @ of_char CHR ''-'' # rev a"
    by (simp add: str_def)
  moreover have "takeWhile is_digit (rev (show_nat i) @ of_char CHR ''-'' # rev a) =
      rev (show_nat i) @ takeWhile is_digit (of_char CHR ''-'' # rev a)"
    by (rule takeWhile_append2) (simp add: show_nat_digits)
  moreover have "takeWhile is_digit (of_char CHR ''-'' # rev a) = []"
    using nd by simp
  ultimately show ?thesis by (simp add: id_index_def digits_value_show_nat)
qed

lemma pararius_record_id_index: "id_index (id' (pararius_record i x shot t r1 r2 r3 r4)) = i"
  using id_index_dash[of "str ''pararius-screenshot-'' @ show_int t" i]
  by (simp add: pararius_record_def)

lemma funda_record_id_index: "id_index (id' (funda_record i x shot t r1 r2 r3 r4)) = i"
  using id_index_dash[of "str ''funda-screenshot-'' @ show_int t" i]
  by (simp add: funda_record_def)

lemma pararius_record_id_hd: "hd (id' (pararius_record i x shot t r1 r2 r3 r4)) = of_char CHR ''p''"
  by (simp add: pararius_record_def str_def)

lemma funda_record_id_hd: "hd (id' (funda_record i x shot t r1 r2 r3 r4)) = of_char CHR ''f''"
  by (simp add: funda_record_def str_def)

lemma pararius_record_id_nonempty: "id' (pararius_record i x shot t r1 r2 r3 r4) \<noteq> []"
  by (simp add: pararius_record_def str_def)

lemma funda_record_id_nonempty: "id' (funda_record i x shot t r1 r2 r3 r4) \<noteq> []"
  by (simp add: funda_record_def str_def)

section \<open>The loop\<close>

text \<open>
  What the loop returns: the records it started with, followed by one record for each
  index whose body did not throw, in the order of the indices.
\<close>

lemma element_step_cases:
  "element_step body pg i el props w = (props', w') \<Longrightarrow>
     (props' = props \<and> (\<exists>err. body i el w = (Inl err, w'))) \<or>
     (\<exists>p. props' = props @ [p] \<and> body i el w = (Inr p, w'))"
  by (auto simp: element_step_def split: prod.splits sum.splits)

lemma scrape_loop_stop:
  "\<not> i < min (length els) cap \<Longrightarrow> scrape_loop body pg cap els i props w = (props, w)"
  by (subst scrape_loop.simps) auto

lemma scrape_loop_step:
  "i < min (length els) cap \<Longrightarrow> element_step body pg i (els ! i) props w = (props1, w1) \<Longrightarrow>
   scrape_loop body pg cap els i props w = scrape_loop body pg cap els (i + 1) props1 w1"
  by (subst scrape_loop.simps) auto

lemma scrape_loop_trace:
  "scrape_loop body pg cap els i props w = (ps, w') \<Longrightarrow>
   \<exists>js ps'. ps = props @ ps' \<and>
     list_all2 (\<lambda>j p. \<exists>w0 w1. body j (els ! j) w0 = (Inr p, w1)) js ps' \<and>
     sorted_wrt (<) js \<and> set js \<subseteq> {i..<min (length els) cap}"
proof (induction body pg cap els i props w arbitrary: ps w' rule: scrape_loop.induct)
  case (1 body pg cap els i props w)
  show ?case
  proof (cases "i < min (length els) cap")
    case False
    from "1.prems" scrape_loop_stop[OF False, of body pg props w] have "ps = props" by simp
    then show ?thesis by (intro exI[of _ "[]"]) simp
  next
    case True
    obtain props1 w1 where step: "element_step body pg i (els ! i) props w = (props1, w1)"
      by (cases "element_step body pg i (els ! i) props w")
    from "1.prems" scrape_loop_step[OF True step]
    have rest: "scrape_loop body pg cap els (i + 1) props1 w1 = (ps, w')" by simp
    from "1.IH"[OF True step[symmetric] rest] obtain js ps' where
      ih: "ps = props1 @ ps'"
        "list_all2 (\<lambda>j p. \<exists>w0 w1. body j (els ! j) w0 = (Inr p, w1)) js ps'"
        "sorted_wrt (<) js" "set js \<subseteq> {Suc i..<min (length els) cap}"
      by auto
    from element_step_cases[OF step] show ?thesis
    proof
      assume "props1 = props \<and> (\<exists>err. body i (els ! i) w = (Inl err, w1))"
      with ih show ?thesis by (intro exI[of _ js] exI[of _ ps']) auto
    next
      assume "\<exists>p. props1 = props @ [p] \<and> body i (els ! i) w = (Inr p, w1)"
      then obtain p where p: "props1 = props @ [p]" "body i (els ! i) w = (Inr p, w1)" by blast
      have "list_all2 (\<lambda>j p. \<exists>w0 w1. body j (els ! j) w0 = (Inr p, w1)) (i # js) (p # ps')"
        using ih(2) p(2) by auto
      moreover have "sorted_wrt (<) (i # js)" using ih(3,4) by auto
      moreover have "set (i # js) \<subseteq> {i..<min (length els) cap}" using ih(4) True by auto
      moreover have "ps = props @ p # ps'" using ih(1) p(1) by simp
      ultimately show ?thesis by blast
    qed
  qed
qed

section \<open>Doubles\<close>

lemma exponent_small: "n < 2 ^ 53 \<Longrightarrow> exponent n = 0"
  by (simp add: exponent.simps)

text \<open>Up to \<open>2 ^ 53\<close> a natural number is its own double.\<close>

lemma to_double_small: "n < 2 ^ 53 \<Longrightarrow> to_double n = Fin (int n)"
proof -
  assume a: "n < 2 ^ 53"
  then have "round53 n = n" by (simp add: round53_def exponent_small)
  moreover have "(2::nat) ^ 53 < 2 ^ 1024" by simp
  ultimately show ?thesis using a by (simp add: to_double_def del: power_strict_increasing_iff)
qed

lemma to_double_nonneg: "to_double n = Infinity \<or> (\<exists>m\<ge>0. to_double n = Fin m)"
  by (simp add: to_double_def Let_def)

text \<open>From \<open>2 ^ 53\<close> on the double may differ: \<open>2 ^ 53 + 1\<close> is rounded to \<open>2 ^ 53\<close>.\<close>

lemma to_double_rounds: "to_double 9007199254740993 = Fin 9007199254740992"
  by (simp add: to_double_def round53_def exponent.simps Let_def)

section \<open>Prices and rooms\<close>

lemma number_group_no_digit: "\<forall>c\<in>set s. \<not> is_digit c \<Longrightarrow> number_group sep s = None"
  by (cases s) (simp_all add: number_group_def)

lemma pararius_here_no_digit:
  assumes "\<forall>c\<in>set s. \<not> is_digit c"
  shows "pararius_price_here s = None"
proof (cases s)
  case Nil
  then show ?thesis by (simp add: pararius_price_here_def number_group_def)
next
  case (Cons c t)
  with assms have "\<forall>c\<in>set t. \<not> is_digit c" by simp
  then have "number_group (of_char CHR '','') t = None" by (rule number_group_no_digit)
  moreover have "number_group (of_char CHR '','') s = None"
    using assms by (rule number_group_no_digit)
  ultimately show ?thesis using Cons by (auto simp add: pararius_price_here_def)
qed

lemma funda_here_no_digit:
  assumes "\<forall>c\<in>set s. \<not> is_digit c"
  shows "funda_price_here s = None"
proof -
  have a: "number_group sep (dropWhile is_space u) = None"
    if "\<forall>c\<in>set u. \<not> is_digit c" for sep u
    using that by (intro number_group_no_digit) (meson set_dropWhileD)
  show ?thesis
  proof (cases s)
    case Nil
    then show ?thesis by (simp add: funda_price_here_def number_group_def)
  next
    case (Cons c t)
    with assms have "\<forall>c\<in>set t. \<not> is_digit c" by simp
    then show ?thesis using Cons a[of t] a[OF assms] by (auto simp add: funda_price_here_def)
  qed
qed

lemma rooms_here_no_digit: "\<forall>c\<in>set s. \<not> is_digit c \<Longrightarrow> rooms_here s = None"
  by (cases s) (simp_all add: rooms_here_def)

lemma search_no_digit:
  "(\<And>t. \<forall>c\<in>set t. \<not> is_digit c \<Longrightarrow> here t = None) \<Longrightarrow> \<forall>c\<in>set s. \<not> is_digit c \<Longrightarrow>
   search here s = None"
  by (induction s) simp_all

lemma pararius_price_no_digit:
  "\<forall>c\<in>set s. \<not> is_digit c \<Longrightarrow> pararius_price (Some s) = Fin 0"
  by (simp add: pararius_price_def search_no_digit pararius_here_no_digit)

lemma funda_price_no_digit:
  "\<forall>c\<in>set s. \<not> is_digit c \<Longrightarrow> funda_price (Some s) = Fin 0"
  by (simp add: funda_price_def search_no_digit funda_here_no_digit)

lemmas parse_defs = pararius_price_def funda_price_def parse_rooms_def pararius_price_here_def
  funda_price_here_def rooms_here_def number_group_def parseInt_def digits_value_def digit_val_def
  replace_first_def is_digit_def is_space_def euro_def str_def to_double_small

text \<open>
  The Funda pattern \<^verbatim>\<open>/\<euro>?\s*(\d+(?:\.\d+)?)/\<close> on the text \<^verbatim>\<open>\<euro>1,250\<close>: group 1 is
  \<^verbatim>\<open>1\<close>, and the price is 1, not 1250.
\<close>

theorem funda_price_comma_counterexample:
  "funda_price (Some (euro # str ''1,250'')) = Fin 1 \<and>
   funda_price (Some (euro # str ''1,250'')) \<noteq> Fin 1250"
  by (simp add: parse_defs)

text \<open>
  Claim C2, as the code has it. The Pararius pattern takes a comma as the thousands
  separator, so \<^verbatim>\<open>\<euro>1,250\<close> parses to 1250 there. The Funda pattern takes a full stop
  instead: \<^verbatim>\<open>\<euro>1.250\<close> parses to 1250, and of \<^verbatim>\<open>\<euro>1,250\<close> it reads only the 1 before the
  comma. For both sources a text without a digit, and a \<^verbatim>\<open>null\<close> text, parse to 0.
\<close>

theorem price_parsing:
  "pararius_price (Some (euro # str ''1,250'')) = Fin 1250 \<and>
   funda_price (Some (euro # str ''1.250'')) = Fin 1250 \<and>
   funda_price (Some (euro # str ''1,250'')) = Fin 1 \<and>
   pararius_price None = Fin 0 \<and> funda_price None = Fin 0 \<and>
   ((\<forall>c\<in>set s. \<not> is_digit c) \<longrightarrow>
      pararius_price (Some s) = Fin 0 \<and> funda_price (Some s) = Fin 0)"
proof -
  have "pararius_price (Some (euro # str ''1,250'')) = Fin 1250" by (simp add: parse_defs)
  moreover have "funda_price (Some (euro # str ''1.250'')) = Fin 1250" by (simp add: parse_defs)
  moreover have "funda_price (Some (euro # str ''1,250'')) = Fin 1" by (simp add: parse_defs)
  moreover have "pararius_price None = Fin 0" "funda_price None = Fin 0"
    by (simp_all add: pararius_price_def funda_price_def)
  ultimately show ?thesis
    using pararius_price_no_digit[of s] funda_price_no_digit[of s] by blast
qed

theorem price_parsing_witness:
  "filter is_digit (str ''Price on request'') = [] \<and>
   pararius_price (Some (str ''Price on request'')) = Fin 0 \<and>
   funda_price (Some (str ''Price on request'')) = Fin 0"
proof -
  have "\<forall>c\<in>set (str ''Price on request''). \<not> is_digit c"
    by (simp add: str_def is_digit_def)
  moreover have "filter is_digit (str ''Price on request'') = []"
    by (simp add: str_def is_digit_def)
  ultimately show ?thesis using price_parsing[of "str ''Price on request''"] by blast
qed

section \<open>What a source returns\<close>

lemma build_property_eq:
  "build_property mk e w =
     (mk (now e (ticks w)) (random e (draws w)) (random e (draws w + 1))
         (random e (draws w + 2)) (random e (draws w + 3)),
      w\<lparr>ticks := ticks w + 1, draws := draws w + 4\<rparr>)"
  by (simp add: build_property_def Date_now_def Math_random_def numeral_Bit0 numeral_Bit1 add.assoc)

lemma build_property_record:
  assumes "build_property mk e w = (p, w')"
  shows "\<exists>t r1 r2 r3 r4. p = mk t r1 r2 r3 r4"
proof -
  from assms have "p = mk (now e (ticks w)) (random e (draws w)) (random e (draws w + 1))
         (random e (draws w + 2)) (random e (draws w + 3))"
    by (simp add: build_property_eq)
  then show ?thesis by blast
qed

lemma pararius_element_record:
  assumes "pararius_element e i el w = (Inr p, w')"
  shows "\<exists>x shot t r1 r2 r3 r4.
           pararius_extract i el = Inr x \<and> p = pararius_record i x shot t r1 r2 r3 r4"
proof (cases "pararius_extract i el")
  case (Inl err)
  with assms show ?thesis by (simp add: pararius_element_def)
next
  case (Inr x)
  obtain shot w1 where s: "take_screenshot (str ''pararius-'') e i (x_imageElement x) w = (shot, w1)"
    by (cases "take_screenshot (str ''pararius-'') e i (x_imageElement x) w")
  with assms Inr have "build_property (pararius_record i x shot) e w1 = (p, w')"
    by (simp add: pararius_element_def split: prod.splits)
  from build_property_record[OF this] Inr show ?thesis by blast
qed

lemma funda_element_record:
  assumes "funda_element e i el w = (Inr p, w')"
  shows "\<exists>x shot t r1 r2 r3 r4.
           funda_extract i el = Inr x \<and> p = funda_record i x shot t r1 r2 r3 r4"
proof (cases "funda_extract i el")
  case (Inl err)
  with assms show ?thesis by (simp add: funda_element_def)
next
  case (Inr x)
  obtain shot w1 where s: "take_screenshot (str ''funda-'') e i (x_imageElement x) w = (shot, w1)"
    by (cases "take_screenshot (str ''funda-'') e i (x_imageElement x) w")
  with assms Inr have "build_property (funda_record i x shot) e w1 = (p, w')"
    by (simp add: funda_element_def split: prod.splits)
  from build_property_record[OF this] Inr show ?thesis by blast
qed

text \<open>The operation of a source, once the browser is there and the page is opened.\<close>

lemma scrape_source_opened:
  assumes "initBrowser e w = (Inr (), w1)" and "newPage e (pages_made w1) = Inr pg"
  shows "scrape_source try_block e w =
    (case try_block e pg (w1\<lparr>pages_made := pages_made w1 + 1, open_pages := open_pages w1 + 1\<rparr>) of
       (r, w3) \<Rightarrow>
         (case page_close pg w3 of
            (Inl err, w4) \<Rightarrow> (Inl err, w4)
          | (Inr u, w4) \<Rightarrow> (Inr (case r of Inl err \<Rightarrow> [] | Inr ps \<Rightarrow> ps), w4)))"
proof -
  from assms(1) obtain b where "browser w1 = Some b"
    by (auto simp: initBrowser_def split: option.splits sum.splits)
  with assms(2) have "browser_newPage e w1 =
      (Inr pg, w1\<lparr>pages_made := pages_made w1 + 1, open_pages := open_pages w1 + 1\<rparr>)"
    by (simp add: browser_newPage_def)
  with assms(1) show ?thesis by (simp add: scrape_source_def)
qed

lemma scrape_source_result:
  assumes "scrape_source try_block e w = (Inr ps, w')"
  shows "ps = [] \<or> (\<exists>pg w2 w3. try_block e pg w2 = (Inr ps, w3))"
  using assms
  by (auto simp: scrape_source_def split: prod.splits sum.splits)

lemma pararius_try_trace:
  assumes "pararius_try e pg w = (Inr ps, w')"
  shows "\<exists>els js. list_all2 (\<lambda>j p. \<exists>w0 w1. pararius_element e j (els ! j) w0 = (Inr p, w1)) js ps \<and>
           sorted_wrt (<) js \<and> set js \<subseteq> {0..<min (length els) 20}"
proof -
  from assms obtain els where
    "scrape_loop (pararius_element e) pg 20 els 0 [] w = (ps, w')"
    by (auto simp: pararius_try_def split: sum.splits prod.splits)
  from scrape_loop_trace[OF this] show ?thesis by auto
qed

lemma funda_try_trace:
  assumes "funda_try e pg w = (Inr ps, w')"
  shows "\<exists>els js. list_all2 (\<lambda>j p. \<exists>w0 w1. funda_element e j (els ! j) w0 = (Inr p, w1)) js ps \<and>
           sorted_wrt (<) js \<and> set js \<subseteq> {0..<min (length els) 15}"
proof -
  from assms obtain els where
    "scrape_loop (funda_element e) pg 15 els 0 [] w = (ps, w')"
    by (auto simp: funda_try_def split: sum.splits prod.splits)
  from scrape_loop_trace[OF this] show ?thesis by auto
qed

text \<open>
  Every list that the Pararius operation returns is made of records of listings with
  increasing indices below the cap, each built from what was read from its listing.
\<close>

lemma scrapePararius_trace:
  assumes "scrapeParariusWithScreenshots e w = (Inr ps, w')"
  shows "\<exists>els js.
           list_all2 (\<lambda>j p. \<exists>x shot t r1 r2 r3 r4.
              pararius_extract j (els ! j) = Inr x \<and> p = pararius_record j x shot t r1 r2 r3 r4) js ps \<and>
           sorted_wrt (<) js \<and> set js \<subseteq> {0..<min (length els) 20}"
proof -
  from scrape_source_result[OF assms[unfolded scrapeParariusWithScreenshots_def]]
  show ?thesis
  proof
    assume "ps = []"
    then show ?thesis by (intro exI[of _ "[]"]) simp
  next
    assume "\<exists>pg w2 w3. pararius_try e pg w2 = (Inr ps, w3)"
    then obtain pg w2 w3 where "pararius_try e pg w2 = (Inr ps, w3)" by blast
    from pararius_try_trace[OF this] obtain els js where
      t: "list_all2 (\<lambda>j p. \<exists>w0 w1. pararius_element e j (els ! j) w0 = (Inr p, w1)) js ps"
         "sorted_wrt (<) js" "set js \<subseteq> {0..<min (length els) 20}"
      by blast
    from t(1) have "list_all2 (\<lambda>j p. \<exists>x shot t r1 r2 r3 r4.
        pararius_extract j (els ! j) = Inr x \<and> p = pararius_record j x shot t r1 r2 r3 r4) js ps"
      by (rule list_all2_mono) (blast dest: pararius_element_record)
    with t(2,3) show ?thesis by blast
  qed
qed

lemma scrapeFunda_trace:
  assumes "scrapeFundaWithScreenshots e w = (Inr ps, w')"
  shows "\<exists>els js.
           list_all2 (\<lambda>j p. \<exists>x shot t r1 r2 r3 r4.
              funda_extract j (els ! j) = Inr x \<and> p = funda_record j x shot t r1 r2 r3 r4) js ps \<and>
           sorted_wrt (<) js \<and> set js \<subseteq> {0..<min (length els) 15}"
proof -
  from scrape_source_result[OF assms[unfolded scrapeFundaWithScreenshots_def]]
  show ?thesis
  proof
    assume "ps = []"
    then show ?thesis by (intro exI[of _ "[]"]) simp
  next
    assume "\<exists>pg w2 w3. funda_try e pg w2 = (Inr ps, w3)"
    then obtain pg w2 w3 where "funda_try e pg w2 = (Inr ps, w3)" by blast
    from funda_try_trace[OF this] obtain els js where
      t: "list_all2 (\<lambda>j p. \<exists>w0 w1. funda_element e j (els ! j) w0 = (Inr p, w1)) js ps"
         "sorted_wrt (<) js" "set js \<subseteq> {0..<min (length els) 15}"
      by blast
    from t(1) have "list_all2 (\<lambda>j p. \<exists>x shot t r1 r2 r3 r4.
        funda_extract j (els ! j) = Inr x \<and> p = funda_record j x shot t r1 r2 r3 r4) js ps"
      by (rule list_all2_mono) (blast dest: funda_element_record)
    with t(2,3) show ?thesis by blast
  qed
qed

lemma scrapePararius_records:
  assumes "scrapeParariusWithScreenshots e w = (Inr ps, w')" "p \<in> set ps"
  shows "\<exists>i x shot t r1 r2 r3 r4. p = pararius_record i x shot t r1 r2 r3 r4"
proof -
  from scrapePararius_trace[OF assms(1)] obtain els js where
    t: "list_all2 (\<lambda>j p. \<exists>x shot t r1 r2 r3 r4.
              pararius_extract j (els ! j) = Inr x \<and> p = pararius_record j x shot t r1 r2 r3 r4) js ps"
    by blast
  from assms(2) obtain k where "k < length ps" "ps ! k = p" by (auto simp: in_set_conv_nth)
  with list_all2_nthD2[OF t, of k] show ?thesis by blast
qed

lemma scrapeFunda_records:
  assumes "scrapeFundaWithScreenshots e w = (Inr ps, w')" "p \<in> set ps"
  shows "\<exists>i x shot t r1 r2 r3 r4. p = funda_record i x shot t r1 r2 r3 r4"
proof -
  from scrapeFunda_trace[OF assms(1)] obtain els js where
    t: "list_all2 (\<lambda>j p. \<exists>x shot t r1 r2 r3 r4.
              funda_extract j (els ! j) = Inr x \<and> p = funda_record j x shot t r1 r2 r3 r4) js ps"
    by blast
  from assms(2) obtain k where "k < length ps" "ps ! k = p" by (auto simp: in_set_conv_nth)
  with list_all2_nthD2[OF t, of k] show ?thesis by blast
qed

lemma scrapeAll_result:
  assumes "scrapeAllWithScreenshots e w = (Inr ps, w')"
  shows "\<exists>pp fp w1 w2 w3. scrapeParariusWithScreenshots e w1 = (Inr pp, w2) \<and>
           scrapeFundaWithScreenshots e w2 = (Inr fp, w3) \<and>
           ps = sort_key listedDays (pp @ fp)"
  using assms
  by (auto simp: scrapeAllWithScreenshots_def scrapeAll_try_def split: prod.splits sum.splits)
    blast+

lemma sorted_lt_length_bound:
  assumes "sorted_wrt (<) (js :: nat list)" "set js \<subseteq> {0..<n}"
  shows "length js \<le> n"
proof -
  from assms(1) have "distinct js" by (simp add: strict_sorted_iff)
  then have "length js = card (set js)" by (simp add: distinct_card)
  also have "\<dots> \<le> card {0..<n}" by (rule card_mono) (use assms(2) in auto)
  finally show ?thesis by simp
qed

section \<open>The sample run\<close>

lemma listedDays_pararius_record [simp]:
  "listedDays (pararius_record i x shot t r1 r2 r3 r4) = floor_times r1 3"
  by (simp add: pararius_record_def)

lemma listedDays_funda_record [simp]:
  "listedDays (funda_record i x shot t r1 r2 r3 r4) = floor_times r1 4"
  by (simp add: funda_record_def)

lemmas demo_defs = text_handle_def link_handle_def image_handle_def bare_listing_def
  pararius_listing_def broken_listing_def funda_listing_def roomless_listing_def
  family_listing_def lavish_listing_def demo_page_def dead_page_def jammed_page_def demo_env_def
  offline_env_def jammed_env_def world0_def

lemmas run_defs = Date_now_def Math_random_def await_def initBrowser_def closeBrowser_def
  ensureDirectoryExists_def browser_newPage_def page_close_def text_or_def href_or_def
  floor_times_def round53_def exponent_small pararius_extract_def funda_extract_def
  take_screenshot_def build_property_def
  pararius_element_def funda_element_def element_step_def scrape_loop.simps swallow_def
  pararius_open_def funda_open_def pararius_try_def funda_try_def scrape_source_def
  scrapeParariusWithScreenshots_def scrapeFundaWithScreenshots_def scrapeAll_try_def
  scrapeAllWithScreenshots_def str_def show_nat.simps show_int_def digit_char_def
  numeral_2_eq_2[symmetric]



lemma demo_run:
  "scrapeAllWithScreenshots demo_env world0 =
     (Inr [demo_funda1, demo_funda4, demo_funda3, demo_funda0], demo_final)"
  by (simp add: demo_defs run_defs demo_funda0_def demo_funda1_def demo_funda3_def
      demo_funda4_def demo_final_def)

section \<open>The order of the result\<close>

text \<open>
  Claim C4. Whenever \<^verbatim>\<open>scrapeAllWithScreenshots\<close> returns a list, the list is sorted
  non-decreasing by \<open>listedDays\<close>.
\<close>

theorem scrapeAll_sorted:
  assumes "scrapeAllWithScreenshots e w = (Inr ps, w')"
  shows "sorted (map listedDays ps)"
proof -
  from scrapeAll_result[OF assms] obtain pp fp where "ps = sort_key listedDays (pp @ fp)"
    by blast
  then show ?thesis by (simp only: sorted_sort_key)
qed

theorem scrapeAll_sorted_witness:
  "scrapeAllWithScreenshots demo_env world0 =
     (Inr [demo_funda1, demo_funda4, demo_funda3, demo_funda0], demo_final) \<and>
   map listedDays [demo_funda0, demo_funda1, demo_funda3, demo_funda4] = [3, 0, 2, 1] \<and>
   map listedDays [demo_funda1, demo_funda4, demo_funda3, demo_funda0] = [0, 1, 2, 3] \<and>
   sorted (map listedDays [demo_funda1, demo_funda4, demo_funda3, demo_funda0])"
proof -
  have "map listedDays [demo_funda0, demo_funda1, demo_funda3, demo_funda4] = [3, 0, 2, 1]"
    "map listedDays [demo_funda1, demo_funda4, demo_funda3, demo_funda0] = [0, 1, 2, 3]"
    by (simp_all add: demo_funda0_def demo_funda1_def demo_funda3_def demo_funda4_def
        floor_times_def round53_def exponent_small)
  with scrapeAll_sorted[OF demo_run] demo_run show ?thesis by blast
qed

section \<open>The cap\<close>

text \<open>
  Claim C9. Whatever the page holds, the Pararius operation returns at most 20 records
  and the Funda operation at most 15.
\<close>

theorem scrape_cap:
  "(scrapeParariusWithScreenshots e w = (Inr ps, w') \<longrightarrow> length ps \<le> 20) \<and>
   (scrapeFundaWithScreenshots e w = (Inr ps, w') \<longrightarrow> length ps \<le> 15)"
proof (intro conjI impI)
  assume "scrapeParariusWithScreenshots e w = (Inr ps, w')"
  from scrapePararius_trace[OF this] obtain els js where
    t: "list_all2 (\<lambda>j p. \<exists>x shot t r1 r2 r3 r4.
          pararius_extract j (els ! j) = Inr x \<and> p = pararius_record j x shot t r1 r2 r3 r4) js ps"
       "sorted_wrt (<) js" "set js \<subseteq> {0..<min (length els) 20}"
    by blast
  from t(3) have "set js \<subseteq> {0..<20}" by auto
  from sorted_lt_length_bound[OF t(2) this] list_all2_lengthD[OF t(1)]
  show "length ps \<le> 20" by simp
next
  assume "scrapeFundaWithScreenshots e w = (Inr ps, w')"
  from scrapeFunda_trace[OF this] obtain els js where
    t: "list_all2 (\<lambda>j p. \<exists>x shot t r1 r2 r3 r4.
          funda_extract j (els ! j) = Inr x \<and> p = funda_record j x shot t r1 r2 r3 r4) js ps"
       "sorted_wrt (<) js" "set js \<subseteq> {0..<min (length els) 15}"
    by blast
  from t(3) have "set js \<subseteq> {0..<15}" by auto
  from sorted_lt_length_bound[OF t(2) this] list_all2_lengthD[OF t(1)]
  show "length ps \<le> 15" by simp
qed


lemma crowded_pararius_run:
  "\<exists>w'. scrapeParariusWithScreenshots crowded_env world0 = (Inr [], w')"
  by (simp add: crowded_env_def demo_defs run_defs)

lemma crowded_pararius_loop:
  "length (fst (scrape_loop (pararius_element crowded_env) (demo_page (replicate 25 bare_listing))
     20 (replicate 25 bare_listing) 0 [] world0)) = 20"
  by (simp add: crowded_env_def demo_defs run_defs)

lemma crowded_funda_run:
  "\<exists>ps w'. scrapeFundaWithScreenshots crowded_env world0 = (Inr ps, w') \<and> length ps = 15"
  by (simp add: crowded_env_def demo_defs run_defs)

text \<open>
  On pages of 25 listings the Funda operation returns 15 records and the Pararius
  operation, which stops at line 53, none; the Pararius loop run on the 25 listings makes
  20 records.
\<close>

theorem scrape_cap_witness:
  "(\<exists>ps w'. scrapeParariusWithScreenshots crowded_env world0 = (Inr ps, w') \<and>
      length ps \<le> 20) \<and>
   (\<exists>ps w'. scrapeFundaWithScreenshots crowded_env world0 = (Inr ps, w') \<and>
      length ps = 15 \<and> length ps \<le> 15) \<and>
   length (fst (scrape_loop (pararius_element crowded_env) (demo_page (replicate 25 bare_listing))
     20 (replicate 25 bare_listing) 0 [] world0)) = 20"
proof -
  from crowded_pararius_run obtain w' where
    p: "scrapeParariusWithScreenshots crowded_env world0 = (Inr [], w')"
    by blast
  from crowded_funda_run obtain fs v' where
    f: "scrapeFundaWithScreenshots crowded_env world0 = (Inr fs, v')" "length fs = 15"
    by blast
  from scrape_cap[of crowded_env world0 "[]" w'] p have "length ([] :: property list) \<le> 20"
    by blast
  moreover from scrape_cap[of crowded_env world0 fs v'] f have "length fs \<le> 15" by blast
  ultimately show ?thesis using p f crowded_pararius_loop by blast
qed

section \<open>Deposit and type\<close>

lemma parseInt_nonneg: "parseInt s = Infinity \<or> (\<exists>m\<ge>0. parseInt s = Fin m)"
  by (simp add: parseInt_def to_double_nonneg)

lemma pararius_price_nonneg:
  "pararius_price t = Infinity \<or> (\<exists>m\<ge>0. pararius_price t = Fin m)"
  using parseInt_nonneg by (auto simp: pararius_price_def split: option.splits)

lemma funda_price_nonneg:
  "funda_price t = Infinity \<or> (\<exists>m\<ge>0. funda_price t = Fin m)"
  using parseInt_nonneg by (auto simp: funda_price_def split: option.splits)

lemma parse_rooms_nonneg:
  "parse_rooms t = Infinity \<or> (\<exists>m\<ge>0. parse_rooms t = Fin m)"
  using parseInt_nonneg by (auto simp: parse_rooms_def split: option.splits)

text \<open>The deposit of a price that is not negative.\<close>

lemma property_deposit_cases:
  assumes "x = Infinity \<or> (\<exists>m\<ge>0. x = Fin m)"
  shows "((x = Infinity \<and> property_deposit x = Infinity) \<or>
          (\<exists>m. x = Fin m \<and> 0 \<le> m \<and>
             (0 < m \<and> 2 * m < 2 ^ 1024 \<longrightarrow> property_deposit x = Fin (2 * m)) \<and>
             (2 ^ 1024 \<le> 2 * m \<longrightarrow> property_deposit x = Infinity) \<and>
             (m = 0 \<longrightarrow> property_deposit x = Fin 1000))) \<and>
         more_than (property_deposit x) 0"
  using assms
  by (auto simp: property_deposit_def more_than_def times_two_def)

lemma property_type_cases:
  "(property_type r = str ''Studio'' \<longleftrightarrow> r = Fin 1) \<and>
   (property_type r = str ''Apartment'' \<longleftrightarrow> at_most r 2 \<and> r \<noteq> Fin 1) \<and>
   (property_type r = str ''House'' \<longleftrightarrow> more_than r 2)"
  by (cases r) (simp_all add: property_type_def str_def at_most_def more_than_def)

text \<open>The fields of a record, as the object literal gives them.\<close>

lemma pararius_record_fields:
  "id' (pararius_record i x shot t r1 r2 r3 r4) =
     str ''pararius-screenshot-'' @ show_int t @ str ''-'' @ show_nat i"
  "title (pararius_record i x shot t r1 r2 r3 r4) =
     or_default (map_option trim (x_title x)) (str ''Pararius Property '' @ show_nat (i + 1))"
  "price (pararius_record i x shot t r1 r2 r3 r4) = pararius_price (x_priceText x)"
  "location (pararius_record i x shot t r1 r2 r3 r4) =
     or_default (map_option trim (x_location x)) (str ''Groningen'')"
  "size' (pararius_record i x shot t r1 r2 r3 r4) =
     or_default (map_option trim (x_sizeText x)) (str ''50m'' @ [superscript_two])"
  "rooms (pararius_record i x shot t r1 r2 r3 r4) = parse_rooms (x_roomsText x)"
  "source (pararius_record i x shot t r1 r2 r3 r4) = str ''Pararius''"
  "sourceUrl (pararius_record i x shot t r1 r2 r3 r4) =
     (case x_propertyUrl x of
        Some u \<Rightarrow> if startsWith u (str ''http'') then u else str ''https://pararius.com'' @ u
      | None \<Rightarrow> str ''https://pararius.com'' @ str ''null'')"
  "listedDays (pararius_record i x shot t r1 r2 r3 r4) = floor_times r1 3"
  "image' (pararius_record i x shot t r1 r2 r3 r4) = shot"
  "images (pararius_record i x shot t r1 r2 r3 r4) = (if shot = [] then [] else [shot])"
  "description (pararius_record i x shot t r1 r2 r3 r4) =
     tpl_null (x_title x) @ str '' in '' @ tpl_null (x_location x) @
     str ''. Professional real estate listing from Pararius.''"
  "type (pararius_record i x shot t r1 r2 r3 r4) = property_type (parse_rooms (x_roomsText x))"
  "available (pararius_record i x shot t r1 r2 r3 r4) = str ''Available now''"
  "realEstateAgent (pararius_record i x shot t r1 r2 r3 r4) = str ''Pararius Partner''"
  "neighborhood (pararius_record i x shot t r1 r2 r3 r4) =
     or_default
       (map_option (replace_first (of_char CHR '')''))
          (case x_location x of
             None \<Rightarrow> None
           | Some l \<Rightarrow> at_index (split_on (of_char CHR ''('') l) 1))
       (str ''Centrum'')"
  "buildYear (pararius_record i x shot t r1 r2 r3 r4) = show_int (1950 + floor_times r2 70)"
  "interior (pararius_record i x shot t r1 r2 r3 r4) =
     pick3 [str ''Furnished'', str ''Upholstered'', str ''Shell''] r3"
  "fullDescription (pararius_record i x shot t r1 r2 r3 r4) =
     str ''Beautiful property in '' @ tpl_null (x_location x) @
     str ''. Contact agent for viewing and more details.''"
  "features (pararius_record i x shot t r1 r2 r3 r4) =
     [str ''Kitchen'', str ''Bathroom'', str ''Internet'']"
  "energyLabel (pararius_record i x shot t r1 r2 r3 r4) = pick3 [str ''A'', str ''B'', str ''C''] r4"
  "deposit (pararius_record i x shot t r1 r2 r3 r4) =
     property_deposit (pararius_price (x_priceText x))"
  "screenshotPath (pararius_record i x shot t r1 r2 r3 r4) = shot"
  by (simp_all add: pararius_record_def)

lemma funda_record_fields:
  "id' (funda_record i x shot t r1 r2 r3 r4) =
     str ''funda-screenshot-'' @ show_int t @ str ''-'' @ show_nat i"
  "title (funda_record i x shot t r1 r2 r3 r4) =
     or_default (map_option trim (x_title x)) (str ''Funda Property '' @ show_nat (i + 1))"
  "price (funda_record i x shot t r1 r2 r3 r4) = funda_price (x_priceText x)"
  "location (funda_record i x shot t r1 r2 r3 r4) =
     str ''Groningen '' @ tpl_undefined (map_option trim (x_location x))"
  "size' (funda_record i x shot t r1 r2 r3 r4) =
     or_default (map_option trim (x_sizeText x)) (str ''50m'' @ [superscript_two])"
  "rooms (funda_record i x shot t r1 r2 r3 r4) = parse_rooms (x_roomsText x)"
  "source (funda_record i x shot t r1 r2 r3 r4) = str ''Funda''"
  "sourceUrl (funda_record i x shot t r1 r2 r3 r4) =
     (case x_propertyUrl x of
        Some u \<Rightarrow> if startsWith u (str ''http'') then u else str ''https://www.funda.nl'' @ u
      | None \<Rightarrow> str ''https://www.funda.nl'' @ str ''null'')"
  "listedDays (funda_record i x shot t r1 r2 r3 r4) = floor_times r1 4"
  "image' (funda_record i x shot t r1 r2 r3 r4) = shot"
  "images (funda_record i x shot t r1 r2 r3 r4) = (if shot = [] then [] else [shot])"
  "description (funda_record i x shot t r1 r2 r3 r4) =
     tpl_null (x_title x) @ str '' in '' @ tpl_null (x_location x) @
     str ''. Quality listing from Funda.''"
  "type (funda_record i x shot t r1 r2 r3 r4) = property_type (parse_rooms (x_roomsText x))"
  "available (funda_record i x shot t r1 r2 r3 r4) = str ''Available now''"
  "realEstateAgent (funda_record i x shot t r1 r2 r3 r4) = str ''Funda Partner''"
  "neighborhood (funda_record i x shot t r1 r2 r3 r4) =
     or_default (map_option trim (x_location x)) (str ''Centrum'')"
  "buildYear (funda_record i x shot t r1 r2 r3 r4) = show_int (1950 + floor_times r2 70)"
  "interior (funda_record i x shot t r1 r2 r3 r4) =
     pick3 [str ''Furnished'', str ''Upholstered'', str ''Shell''] r3"
  "fullDescription (funda_record i x shot t r1 r2 r3 r4) =
     str ''Quality property in '' @ tpl_null (x_location x) @
     str ''. Professional listing with full details.''"
  "features (funda_record i x shot t r1 r2 r3 r4) =
     [str ''Kitchen'', str ''Bathroom'', str ''Internet'']"
  "energyLabel (funda_record i x shot t r1 r2 r3 r4) = pick3 [str ''A'', str ''B'', str ''C''] r4"
  "deposit (funda_record i x shot t r1 r2 r3 r4) =
     property_deposit (funda_price (x_priceText x))"
  "screenshotPath (funda_record i x shot t r1 r2 r3 r4) = shot"
  by (simp_all add: funda_record_def)

text \<open>Every record of every list that one of the three operations returns.\<close>

lemma returned_records:
  assumes "scrapeParariusWithScreenshots e w = (Inr ps, w') \<or>
           scrapeFundaWithScreenshots e w = (Inr ps, w') \<or>
           scrapeAllWithScreenshots e w = (Inr ps, w')"
      and "p \<in> set ps"
  shows "(\<exists>i x shot t r1 r2 r3 r4. p = pararius_record i x shot t r1 r2 r3 r4) \<or>
         (\<exists>i x shot t r1 r2 r3 r4. p = funda_record i x shot t r1 r2 r3 r4)"
proof -
  consider (P) "scrapeParariusWithScreenshots e w = (Inr ps, w')"
    | (F) "scrapeFundaWithScreenshots e w = (Inr ps, w')"
    | (A) "scrapeAllWithScreenshots e w = (Inr ps, w')"
    using assms(1) by blast
  then show ?thesis
  proof cases
    case P
    from scrapePararius_records[OF P assms(2)] show ?thesis by blast
  next
    case F
    from scrapeFunda_records[OF F assms(2)] show ?thesis by blast
  next
    case A
    from scrapeAll_result[OF A] obtain pp fp w1 w2 w3 where
      r: "scrapeParariusWithScreenshots e w1 = (Inr pp, w2)"
         "scrapeFundaWithScreenshots e w2 = (Inr fp, w3)"
         "ps = sort_key listedDays (pp @ fp)"
      by blast
    from r(3) assms(2) have "p \<in> set pp \<or> p \<in> set fp" by simp
    then show ?thesis
    proof
      assume "p \<in> set pp"
      from scrapePararius_records[OF r(1) this] show ?thesis by blast
    next
      assume "p \<in> set fp"
      from scrapeFunda_records[OF r(2) this] show ?thesis by blast
    qed
  qed
qed

text \<open>
  Claim C10, as the code has it. The price and the deposit are doubles. In every record
  that an operation returns, the price is a non-negative integer or \<^verbatim>\<open>Infinity\<close>; the
  deposit is twice the price when the price is positive and twice the price is below
  \<open>2 ^ 1024\<close>, \<^verbatim>\<open>Infinity\<close> when twice the price is \<open>2 ^ 1024\<close> or more, and 1000 when the
  price is 0. So the deposit is always positive, and an integer unless it is
  \<^verbatim>\<open>Infinity\<close>.
\<close>

theorem deposit_rule:
  assumes "scrapeParariusWithScreenshots e w = (Inr ps, w') \<or>
           scrapeFundaWithScreenshots e w = (Inr ps, w') \<or>
           scrapeAllWithScreenshots e w = (Inr ps, w')"
      and "p \<in> set ps"
  shows "((price p = Infinity \<and> deposit p = Infinity) \<or>
          (\<exists>m. price p = Fin m \<and> 0 \<le> m \<and>
             (0 < m \<and> 2 * m < 2 ^ 1024 \<longrightarrow> deposit p = Fin (2 * m)) \<and>
             (2 ^ 1024 \<le> 2 * m \<longrightarrow> deposit p = Infinity) \<and>
             (m = 0 \<longrightarrow> deposit p = Fin 1000))) \<and>
         more_than (deposit p) 0"
proof -
  from returned_records[OF assms] show ?thesis
  proof
    assume "\<exists>i x shot t r1 r2 r3 r4. p = pararius_record i x shot t r1 r2 r3 r4"
    then obtain i x shot t r1 r2 r3 r4 where "p = pararius_record i x shot t r1 r2 r3 r4"
      by blast
    then show ?thesis
      using property_deposit_cases[OF pararius_price_nonneg[of "x_priceText x"]]
      by (simp only: pararius_record_fields)
  next
    assume "\<exists>i x shot t r1 r2 r3 r4. p = funda_record i x shot t r1 r2 r3 r4"
    then obtain i x shot t r1 r2 r3 r4 where "p = funda_record i x shot t r1 r2 r3 r4"
      by blast
    then show ?thesis
      using property_deposit_cases[OF funda_price_nonneg[of "x_priceText x"]]
      by (simp only: funda_record_fields)
  qed
qed

lemma demo_prices:
  "map price [demo_funda1, demo_funda4, demo_funda3, demo_funda0] =
     [Fin 0, Fin 0, Fin 2100, Fin 1250]"
  "map deposit [demo_funda1, demo_funda4, demo_funda3, demo_funda0] =
     [Fin 1000, Fin 1000, Fin 4200, Fin 2500]"
  by (simp_all add: demo_funda0_def demo_funda1_def demo_funda3_def demo_funda4_def
      funda_record_fields property_deposit_def more_than_def times_two_def parse_defs)

theorem deposit_rule_witness:
  "scrapeAllWithScreenshots demo_env world0 =
     (Inr [demo_funda1, demo_funda4, demo_funda3, demo_funda0], demo_final) \<and>
   price demo_funda0 = Fin 1250 \<and> deposit demo_funda0 = Fin (2 * 1250) \<and>
   price demo_funda1 = Fin 0 \<and> deposit demo_funda1 = Fin 1000 \<and>
   more_than (deposit demo_funda0) 0 \<and> more_than (deposit demo_funda1) 0"
proof -
  have run: "scrapeParariusWithScreenshots demo_env world0 =
        (Inr [demo_funda1, demo_funda4, demo_funda3, demo_funda0], demo_final) \<or>
      scrapeFundaWithScreenshots demo_env world0 =
        (Inr [demo_funda1, demo_funda4, demo_funda3, demo_funda0], demo_final) \<or>
      scrapeAllWithScreenshots demo_env world0 =
        (Inr [demo_funda1, demo_funda4, demo_funda3, demo_funda0], demo_final)"
    using demo_run by blast
  have p: "price demo_funda0 = Fin 1250" "price demo_funda1 = Fin 0"
    using demo_prices by simp_all
  from deposit_rule[OF run, of demo_funda0] deposit_rule[OF run, of demo_funda1] p demo_run
  show ?thesis by (simp add: more_than_def)
qed

text \<open>
  A Funda listing whose price text is a one and 308 zeros. The price is the double
  nearest to \<open>10 ^ 308\<close>, which is finite; twice that is beyond the doubles, and the deposit
  is \<^verbatim>\<open>Infinity\<close>: not twice the price, and not an integer.
\<close>

lemma exponent_lavish:
  "exponent 100000000000000000000000000000000000000000000000000000000000000000000000000000000000000000000000000000000000000000000000000000000000000000000000000000000000000000000000000000000000000000000000000000000000000000000000000000000000000000000000000000000000000000000000000000000000000000000000000000000000000000000 = 971"
  by (simp add: exponent.simps)

lemma to_double_lavish:
  "to_double 100000000000000000000000000000000000000000000000000000000000000000000000000000000000000000000000000000000000000000000000000000000000000000000000000000000000000000000000000000000000000000000000000000000000000000000000000000000000000000000000000000000000000000000000000000000000000000000000000000000000000000000 =
     Fin 100000000000000001097906362944045541740492309677311846336810682903157585404911491537163328978494688899061249669721172515611590283743140088328307009198146046031271664502933027185697489699588559043338384466165001178426897626212945177628091195786707458122783970171784415105291802893207873272974885715430223118336"
  by (simp add: to_double_def round53_def exponent_lavish Let_def)

lemma lavish_run:
  "scrapeAllWithScreenshots lavish_env world0 =
     (Inr [lavish_record],
      \<lparr>browser = None, running = {}, open_pages = 0, pages_made = 2, ticks = 1, draws = 4\<rparr>)"
  by (simp add: lavish_env_def demo_defs run_defs lavish_record_def)

lemma lavish_price_parsed:
  "funda_price (Some lavish_price) =
     to_double 100000000000000000000000000000000000000000000000000000000000000000000000000000000000000000000000000000000000000000000000000000000000000000000000000000000000000000000000000000000000000000000000000000000000000000000000000000000000000000000000000000000000000000000000000000000000000000000000000000000000000000000"
  by (simp add: lavish_price_def funda_price_def funda_price_here_def number_group_def
      parseInt_def digits_value_def digit_val_def replace_first_def is_digit_def is_space_def
      euro_def str_def)

theorem deposit_overflow_counterexample:
  "scrapeAllWithScreenshots lavish_env world0 =
     (Inr [lavish_record],
      \<lparr>browser = None, running = {}, open_pages = 0, pages_made = 2, ticks = 1, draws = 4\<rparr>) \<and>
   price lavish_record =
     Fin 100000000000000001097906362944045541740492309677311846336810682903157585404911491537163328978494688899061249669721172515611590283743140088328307009198146046031271664502933027185697489699588559043338384466165001178426897626212945177628091195786707458122783970171784415105291802893207873272974885715430223118336 \<and>
   deposit lavish_record = Infinity"
proof -
  have "price lavish_record =
     Fin 100000000000000001097906362944045541740492309677311846336810682903157585404911491537163328978494688899061249669721172515611590283743140088328307009198146046031271664502933027185697489699588559043338384466165001178426897626212945177628091195786707458122783970171784415105291802893207873272974885715430223118336"
    by (simp only: lavish_record_def funda_record_fields extracted.simps lavish_price_parsed
        to_double_lavish)
  moreover from this have "deposit lavish_record = Infinity"
    by (simp add: lavish_record_def funda_record_fields property_deposit_def more_than_def
        times_two_def)
  ultimately show ?thesis using lavish_run by blast
qed

text \<open>
  Claim C5, as the code has it. The type is computed by
  \<^verbatim>\<open>rooms === 1 ? 'Studio' : rooms <= 2 ? 'Apartment' : 'House'\<close>, so in every returned
  record it is \<^verbatim>\<open>Studio\<close> exactly when rooms is 1, \<^verbatim>\<open>Apartment\<close> exactly when rooms is 0
  or 2, and \<^verbatim>\<open>House\<close> exactly when rooms is more than 2; at the boundary, 2 rooms give
  \<^verbatim>\<open>Apartment\<close> and 3 rooms give \<^verbatim>\<open>House\<close>.
\<close>

theorem type_by_rooms:
  assumes "scrapeParariusWithScreenshots e w = (Inr ps, w') \<or>
           scrapeFundaWithScreenshots e w = (Inr ps, w') \<or>
           scrapeAllWithScreenshots e w = (Inr ps, w')"
      and "p \<in> set ps"
  shows "(type p = str ''Studio'' \<longleftrightarrow> rooms p = Fin 1) \<and>
         (type p = str ''Apartment'' \<longleftrightarrow> rooms p = Fin 0 \<or> rooms p = Fin 2) \<and>
         (type p = str ''House'' \<longleftrightarrow> more_than (rooms p) 2) \<and>
         property_type (Fin 2) = str ''Apartment'' \<and> property_type (Fin 3) = str ''House''"
proof -
  have b: "property_type (Fin 2) = str ''Apartment''" "property_type (Fin 3) = str ''House''"
    by (simp_all add: property_type_def at_most_def)
  have "type p = property_type (rooms p) \<and>
        (rooms p = Infinity \<or> (\<exists>m\<ge>0. rooms p = Fin m))"
    using returned_records[OF assms]
  proof (elim disjE exE)
    fix i x shot t r1 r2 r3 r4
    assume "p = pararius_record i x shot t r1 r2 r3 r4"
    with parse_rooms_nonneg[of "x_roomsText x"] show ?thesis
      by (simp only: pararius_record_fields)
  next
    fix i x shot t r1 r2 r3 r4
    assume "p = funda_record i x shot t r1 r2 r3 r4"
    with parse_rooms_nonneg[of "x_roomsText x"] show ?thesis
      by (simp only: funda_record_fields)
  qed
  moreover have "at_most r 2 \<and> r \<noteq> Fin 1 \<longleftrightarrow> r = Fin 0 \<or> r = Fin 2"
    if "r = Infinity \<or> (\<exists>m\<ge>0. r = Fin m)" for r
    using that by (auto simp: at_most_def)
  ultimately show ?thesis using property_type_cases[of "rooms p"] b by simp
qed

text \<open>
  A Funda listing that advertises \<^verbatim>\<open>0 kamers\<close> is returned with 0 rooms and the type
  \<^verbatim>\<open>Apartment\<close>, so \<^verbatim>\<open>Apartment\<close> does not imply 2 rooms.
\<close>

theorem apartment_without_rooms_counterexample:
  "scrapeAllWithScreenshots demo_env world0 =
     (Inr [demo_funda1, demo_funda4, demo_funda3, demo_funda0], demo_final) \<and>
   type demo_funda1 = str ''Apartment'' \<and> rooms demo_funda1 = Fin 0 \<and>
   rooms demo_funda1 \<noteq> Fin 2"
proof -
  have "rooms demo_funda1 = Fin 0"
    by (simp add: demo_funda1_def funda_record_fields parse_defs)
  moreover have "type demo_funda1 = str ''Apartment''"
    by (simp add: demo_funda1_def funda_record_fields parse_defs property_type_def at_most_def)
  ultimately show ?thesis using demo_run by simp
qed

theorem type_by_rooms_witness:
  "scrapeAllWithScreenshots demo_env world0 =
     (Inr [demo_funda1, demo_funda4, demo_funda3, demo_funda0], demo_final) \<and>
   map rooms [demo_funda1, demo_funda4, demo_funda3, demo_funda0] =
     [Fin 0, Fin 2, Fin 4, Fin 1] \<and>
   map type [demo_funda1, demo_funda4, demo_funda3, demo_funda0] =
     [str ''Apartment'', str ''Apartment'', str ''House'', str ''Studio'']"
proof -
  have run: "scrapeParariusWithScreenshots demo_env world0 =
        (Inr [demo_funda1, demo_funda4, demo_funda3, demo_funda0], demo_final) \<or>
      scrapeFundaWithScreenshots demo_env world0 =
        (Inr [demo_funda1, demo_funda4, demo_funda3, demo_funda0], demo_final) \<or>
      scrapeAllWithScreenshots demo_env world0 =
        (Inr [demo_funda1, demo_funda4, demo_funda3, demo_funda0], demo_final)"
    using demo_run by blast
  have r: "map rooms [demo_funda1, demo_funda4, demo_funda3, demo_funda0] =
     [Fin 0, Fin 2, Fin 4, Fin 1]"
    by (simp add: demo_funda0_def demo_funda1_def demo_funda3_def demo_funda4_def
        funda_record_fields parse_defs)
  from type_by_rooms[OF run, of demo_funda0] type_by_rooms[OF run, of demo_funda1]
    type_by_rooms[OF run, of demo_funda3] type_by_rooms[OF run, of demo_funda4] r demo_run
  show ?thesis by (simp add: more_than_def)
qed

section \<open>The ids\<close>

lemma id_index_map:
  assumes "list_all2 (\<lambda>j p. id_index (id' p) = j) js ps"
  shows "map (\<lambda>p. id_index (id' p)) ps = js"
  using assms by (induction rule: list_all2_induct) simp_all

lemma distinct_ids_of_indices:
  assumes "list_all2 (\<lambda>j p. id_index (id' p) = j) js ps" "sorted_wrt (<) js"
  shows "distinct (map id' ps)"
proof -
  from assms(2) have "distinct js" by (simp add: strict_sorted_iff)
  with id_index_map[OF assms(1)] have "distinct (map id_index (map id' ps))"
    by (simp add: comp_def)
  then show ?thesis unfolding distinct_map[of id_index "map id' ps"] by (rule conjunct1)
qed

lemma scrapePararius_ids:
  assumes "scrapeParariusWithScreenshots e w = (Inr ps, w')"
  shows "distinct (map id' ps) \<and> (\<forall>p\<in>set ps. id' p \<noteq> [] \<and> hd (id' p) = of_char CHR ''p'')"
proof -
  from scrapePararius_trace[OF assms] obtain els js where
    t: "list_all2 (\<lambda>j p. \<exists>x shot t r1 r2 r3 r4.
          pararius_extract j (els ! j) = Inr x \<and> p = pararius_record j x shot t r1 r2 r3 r4) js ps"
       "sorted_wrt (<) js"
    by blast
  from t(1) have "list_all2 (\<lambda>j p. id_index (id' p) = j) js ps"
    by (rule list_all2_mono) (auto simp: pararius_record_id_index)
  from distinct_ids_of_indices[OF this t(2)] have "distinct (map id' ps)" .
  moreover have "id' p \<noteq> [] \<and> hd (id' p) = of_char CHR ''p''" if "p \<in> set ps" for p
    using scrapePararius_records[OF assms that]
    by (auto simp: pararius_record_id_nonempty pararius_record_id_hd)
  ultimately show ?thesis by blast
qed

lemma scrapeFunda_ids:
  assumes "scrapeFundaWithScreenshots e w = (Inr ps, w')"
  shows "distinct (map id' ps) \<and> (\<forall>p\<in>set ps. id' p \<noteq> [] \<and> hd (id' p) = of_char CHR ''f'')"
proof -
  from scrapeFunda_trace[OF assms] obtain els js where
    t: "list_all2 (\<lambda>j p. \<exists>x shot t r1 r2 r3 r4.
          funda_extract j (els ! j) = Inr x \<and> p = funda_record j x shot t r1 r2 r3 r4) js ps"
       "sorted_wrt (<) js"
    by blast
  from t(1) have "list_all2 (\<lambda>j p. id_index (id' p) = j) js ps"
    by (rule list_all2_mono) (auto simp: funda_record_id_index)
  from distinct_ids_of_indices[OF this t(2)] have "distinct (map id' ps)" .
  moreover have "id' p \<noteq> [] \<and> hd (id' p) = of_char CHR ''f''" if "p \<in> set ps" for p
    using scrapeFunda_records[OF assms that]
    by (auto simp: funda_record_id_nonempty funda_record_id_hd)
  ultimately show ?thesis by blast
qed

lemma distinct_map_sort_key:
  "distinct (map f (sort_key k xs)) = distinct (map f xs)"
  by (simp add: distinct_map)

text \<open>
  Claim C3. In the list that a run of \<^verbatim>\<open>scrapeAllWithScreenshots\<close> returns, no two
  records have the same id, across both sources, and no id is the empty string.
\<close>

theorem scrapeAll_ids_unique:
  assumes "scrapeAllWithScreenshots e w = (Inr ps, w')"
  shows "distinct (map id' ps) \<and> (\<forall>p\<in>set ps. id' p \<noteq> [])"
proof -
  from scrapeAll_result[OF assms] obtain pp fp w1 w2 w3 where
    r: "scrapeParariusWithScreenshots e w1 = (Inr pp, w2)"
       "scrapeFundaWithScreenshots e w2 = (Inr fp, w3)"
       "ps = sort_key listedDays (pp @ fp)"
    by blast
  note P = scrapePararius_ids[OF r(1)] and F = scrapeFunda_ids[OF r(2)]
  have "id' p \<noteq> id' q" if "p \<in> set pp" "q \<in> set fp" for p q
  proof
    assume "id' p = id' q"
    moreover from P that(1) have "hd (id' p) = of_char CHR ''p''" by blast
    moreover from F that(2) have "hd (id' q) = of_char CHR ''f''" by blast
    ultimately show False by simp
  qed
  then have "set (map id' pp) \<inter> set (map id' fp) = {}" by auto
  with P F have "distinct (map id' (pp @ fp))" by simp
  then have "distinct (map id' ps)" by (simp only: r(3) distinct_map_sort_key)
  moreover have "\<forall>p\<in>set ps. id' p \<noteq> []" using P F r(3) by auto
  ultimately show ?thesis by blast
qed

theorem scrapeAll_ids_unique_witness:
  "scrapeAllWithScreenshots demo_env world0 =
     (Inr [demo_funda1, demo_funda4, demo_funda3, demo_funda0], demo_final) \<and>
   map id' [demo_funda1, demo_funda4, demo_funda3, demo_funda0] =
     [str ''funda-screenshot-1700000000002-1'', str ''funda-screenshot-1700000000005-4'',
      str ''funda-screenshot-1700000000004-3'', str ''funda-screenshot-1700000000001-0''] \<and>
   distinct (map id' [demo_funda1, demo_funda4, demo_funda3, demo_funda0]) \<and>
   [] \<notin> set (map id' [demo_funda1, demo_funda4, demo_funda3, demo_funda0])"
proof -
  have "map id' [demo_funda1, demo_funda4, demo_funda3, demo_funda0] =
     [str ''funda-screenshot-1700000000002-1'', str ''funda-screenshot-1700000000005-4'',
      str ''funda-screenshot-1700000000004-3'', str ''funda-screenshot-1700000000001-0'']"
    by (simp add: demo_funda0_def demo_funda1_def demo_funda3_def demo_funda4_def
        funda_record_fields str_def show_nat.simps show_int_def digit_char_def)
  moreover from scrapeAll_ids_unique[OF demo_run]
  have "distinct (map id' [demo_funda1, demo_funda4, demo_funda3, demo_funda0])"
    "[] \<notin> set (map id' [demo_funda1, demo_funda4, demo_funda3, demo_funda0])"
    by auto
  ultimately show ?thesis using demo_run by blast
qed

section \<open>The browser session\<close>

lemma same_session_refl: "same_session w w"
  by (simp add: same_session_def)

lemma same_session_trans: "same_session a b \<Longrightarrow> same_session b c \<Longrightarrow> same_session a c"
  by (simp add: same_session_def)

lemma take_screenshot_session:
  "take_screenshot prefix e i im w = (s, w') \<Longrightarrow> same_session w w'"
  by (auto simp: take_screenshot_def Date_now_def same_session_def
      split: option.splits sum.splits)

lemma build_property_session: "build_property mk e w = (p, w') \<Longrightarrow> same_session w w'"
  by (auto simp: build_property_eq same_session_def)

lemma pararius_element_session:
  assumes "pararius_element e i el w = (r, w')"
  shows "same_session w w'"
proof (cases "pararius_extract i el")
  case (Inl err)
  with assms show ?thesis by (simp add: pararius_element_def same_session_def)
next
  case (Inr x)
  obtain shot w1 where s: "take_screenshot (str ''pararius-'') e i (x_imageElement x) w = (shot, w1)"
    by (cases "take_screenshot (str ''pararius-'') e i (x_imageElement x) w")
  obtain p w2 where b: "build_property (pararius_record i x shot) e w1 = (p, w2)"
    by (cases "build_property (pararius_record i x shot) e w1")
  from assms Inr s b have "w' = w2" by (simp add: pararius_element_def)
  with take_screenshot_session[OF s] build_property_session[OF b] show ?thesis
    by (blast intro: same_session_trans)
qed

lemma funda_element_session:
  assumes "funda_element e i el w = (r, w')"
  shows "same_session w w'"
proof (cases "funda_extract i el")
  case (Inl err)
  with assms show ?thesis by (simp add: funda_element_def same_session_def)
next
  case (Inr x)
  obtain shot w1 where s: "take_screenshot (str ''funda-'') e i (x_imageElement x) w = (shot, w1)"
    by (cases "take_screenshot (str ''funda-'') e i (x_imageElement x) w")
  obtain p w2 where b: "build_property (funda_record i x shot) e w1 = (p, w2)"
    by (cases "build_property (funda_record i x shot) e w1")
  from assms Inr s b have "w' = w2" by (simp add: funda_element_def)
  with take_screenshot_session[OF s] build_property_session[OF b] show ?thesis
    by (blast intro: same_session_trans)
qed

lemma element_step_session:
  assumes "\<And>i el w r w'. body i el w = (r, w') \<Longrightarrow> same_session w w'"
      and "element_step body pg i el props w = (props', w')"
  shows "same_session w w'"
  using assms(2) assms(1)[of i el w]
  by (auto simp: element_step_def split: prod.splits sum.splits)

lemma scrape_loop_session:
  "scrape_loop body pg cap els i props w = (ps, w') \<Longrightarrow>
   (\<And>i el w r w'. body i el w = (r, w') \<Longrightarrow> same_session w w') \<Longrightarrow>
   same_session w w'"
proof (induction body pg cap els i props w arbitrary: ps w' rule: scrape_loop.induct)
  case (1 body pg cap els i props w)
  show ?case
  proof (cases "i < min (length els) cap")
    case False
    from "1.prems"(1) scrape_loop_stop[OF False, of body pg props w] show ?thesis
      by (simp add: same_session_refl)
  next
    case True
    obtain props1 w1 where step: "element_step body pg i (els ! i) props w = (props1, w1)"
      by (cases "element_step body pg i (els ! i) props w")
    from "1.prems"(1) scrape_loop_step[OF True step]
    have rest: "scrape_loop body pg cap els (i + 1) props1 w1 = (ps, w')" by simp
    have r: "same_session w1 w'"
      using True step[symmetric] rest "1.prems"(2) by (rule "1.IH")
    have "same_session w w1" using "1.prems"(2) step by (rule element_step_session)
    then show ?thesis using r by (rule same_session_trans)
  qed
qed

lemma pararius_try_session:
  assumes "pararius_try e pg w = (r, w')"
  shows "same_session w w'"
proof (cases "pararius_open e pg")
  case (Inl err)
  with assms show ?thesis by (simp add: pararius_try_def same_session_refl)
next
  case (Inr els)
  obtain ps w1 where l: "scrape_loop (pararius_element e) pg 20 els 0 [] w = (ps, w1)"
    by (cases "scrape_loop (pararius_element e) pg 20 els 0 [] w")
  from assms Inr l have "w' = w1" by (simp add: pararius_try_def)
  with scrape_loop_session[OF l pararius_element_session] show ?thesis by simp
qed

lemma funda_try_session:
  assumes "funda_try e pg w = (r, w')"
  shows "same_session w w'"
proof (cases "funda_open e pg")
  case (Inl err)
  with assms show ?thesis by (simp add: funda_try_def same_session_refl)
next
  case (Inr els)
  obtain ps w1 where l: "scrape_loop (funda_element e) pg 15 els 0 [] w = (ps, w1)"
    by (cases "scrape_loop (funda_element e) pg 15 els 0 [] w")
  from assms Inr l have "w' = w1" by (simp add: funda_try_def)
  with scrape_loop_session[OF l funda_element_session] show ?thesis by simp
qed

lemma initBrowser_present: "browser w = Some b \<Longrightarrow> initBrowser e w = (Inr (), w)"
  by (simp add: initBrowser_def)

lemma page_close_session: "page_close pg w = (r, w') \<Longrightarrow> same_session w w'"
  by (auto simp: page_close_def same_session_def split: sum.splits)

lemma scrape_source_session:
  assumes "\<And>pg w r w'. try_block e pg w = (r, w') \<Longrightarrow> same_session w w'"
      and "browser w = Some b"
      and "scrape_source try_block e w = (r, w')"
  shows "same_session w w'"
proof (cases "newPage e (pages_made w)")
  case (Inl err)
  with assms(2,3) show ?thesis
    by (auto simp: scrape_source_def initBrowser_def browser_newPage_def same_session_def)
next
  case (Inr pg)
  let ?w2 = "w\<lparr>pages_made := pages_made w + 1, open_pages := open_pages w + 1\<rparr>"
  obtain r3 w3 where t: "try_block e pg ?w2 = (r3, w3)" by (cases "try_block e pg ?w2")
  obtain r4 w4 where c: "page_close pg w3 = (r4, w4)" by (cases "page_close pg w3")
  from assms(2) have i: "initBrowser e w = (Inr (), w)" by (rule initBrowser_present)
  from assms(3) t c have "w' = w4"
    by (simp add: scrape_source_opened[OF i Inr] split: sum.splits)
  moreover have "same_session w ?w2" by (simp add: same_session_def)
  ultimately show ?thesis
    using assms(1)[OF t] page_close_session[OF c] by (simp add: same_session_def)
qed

lemma scrapeAll_try_session:
  assumes "browser w = Some b" "scrapeAll_try e w = (r, w')"
  shows "same_session w w'"
proof -
  obtain r1 w1 where p: "scrapeParariusWithScreenshots e w = (r1, w1)"
    by (cases "scrapeParariusWithScreenshots e w")
  from scrape_source_session[OF pararius_try_session assms(1)
      p[unfolded scrapeParariusWithScreenshots_def]]
  have s1: "same_session w w1" .
  show ?thesis
  proof (cases r1)
    case (Inl err)
    with assms(2) p s1 show ?thesis by (simp add: scrapeAll_try_def)
  next
    case (Inr pp)
    obtain r2 w2 where f: "scrapeFundaWithScreenshots e w1 = (r2, w2)"
      by (cases "scrapeFundaWithScreenshots e w1")
    from s1 assms(1) have "browser w1 = Some b" by (simp add: same_session_def)
    from scrape_source_session[OF funda_try_session this
        f[unfolded scrapeFundaWithScreenshots_def]]
    have "same_session w1 w2" .
    with s1 have "same_session w w2" by (rule same_session_trans)
    moreover from assms(2) p Inr f have "w' = w2"
      by (auto simp: scrapeAll_try_def split: sum.splits)
    ultimately show ?thesis by simp
  qed
qed

text \<open>\<^verbatim>\<open>closeBrowser\<close> when \<^verbatim>\<open>browser.close()\<close> resolves, and when it rejects.\<close>

lemma closeBrowser_resolves:
  assumes "\<forall>b. browser_close e b = Inr ()"
  shows "closeBrowser e w =
    (Inr (), w\<lparr>browser := None, running := running w - set_option (browser w)\<rparr>)"
  using assms by (cases "browser w") (simp_all add: closeBrowser_def)

lemma closeBrowser_rejects:
  "browser w = Some b \<Longrightarrow> browser_close e b = Inl err \<Longrightarrow> closeBrowser e w = (Inl err, w)"
  by (simp add: closeBrowser_def)

lemma closeBrowser_absent: "browser w = None \<Longrightarrow> closeBrowser e w = (Inr (), w)"
  by (simp add: closeBrowser_def)

text \<open>
  Claim C8, as the code has it. Let \<^verbatim>\<open>browser.close()\<close> resolve. After every run of
  \<^verbatim>\<open>scrapeAllWithScreenshots\<close>, whether it returns a list or an error, the browser field
  is \<^verbatim>\<open>null\<close> and the session that the scraper held or launched is no longer running.
  \<^verbatim>\<open>closeBrowser\<close> resolves and leaves the field \<^verbatim>\<open>null\<close>, and a second call resolves and
  changes nothing.
\<close>

theorem scrapeAll_closes_browser:
  assumes "\<forall>b. browser_close e b = Inr ()"
  shows "browser (snd (scrapeAllWithScreenshots e w)) = None \<and>
         running (snd (scrapeAllWithScreenshots e w)) \<subseteq> running w - set_option (browser w) \<and>
         fst (closeBrowser e w) = Inr () \<and>
         browser (snd (closeBrowser e w)) = None \<and>
         closeBrowser e (snd (closeBrowser e w)) = (Inr (), snd (closeBrowser e w))"
proof -
  obtain r1 w1 where i: "initBrowser e w = (r1, w1)" by (cases "initBrowser e w")
  have "browser (snd (scrapeAllWithScreenshots e w)) = None \<and>
        running (snd (scrapeAllWithScreenshots e w)) \<subseteq> running w - set_option (browser w)"
  proof (cases r1)
    case (Inl err)
    with i have "w1 = w" "browser w = None"
      by (auto simp: initBrowser_def split: option.splits sum.splits)
    with i Inl show ?thesis by (simp add: scrapeAllWithScreenshots_def)
  next
    case (Inr u)
    with i obtain b where b: "browser w1 = Some b"
      "running w1 - {b} \<subseteq> running w - set_option (browser w)"
      by (auto simp: initBrowser_def split: option.splits sum.splits)
    obtain r2 w2 where t: "scrapeAll_try e w1 = (r2, w2)" by (cases "scrapeAll_try e w1")
    from scrapeAll_try_session[OF b(1) t] b
    have "browser w2 = Some b" "running w2 - {b} \<subseteq> running w - set_option (browser w)"
      by (simp_all add: same_session_def)
    moreover from i Inr t have "snd (scrapeAllWithScreenshots e w) =
        w2\<lparr>browser := None, running := running w2 - set_option (browser w2)\<rparr>"
      by (simp add: scrapeAllWithScreenshots_def closeBrowser_resolves[OF assms])
    ultimately show ?thesis by simp
  qed
  then show ?thesis
    by (simp add: closeBrowser_resolves[OF assms])
qed

lemma pageless_run:
  "fst (scrapeAllWithScreenshots pageless_env world0) = Inl (JsError ''Target closed'')"
  by (simp add: pageless_env_def demo_defs run_defs)

theorem scrapeAll_closes_browser_witness:
  "browser_close demo_env = (\<lambda>b. Inr ()) \<and> browser_close pageless_env = (\<lambda>b. Inr ()) \<and>
   fst (scrapeAllWithScreenshots pageless_env world0) = Inl (JsError ''Target closed'') \<and>
   browser (snd (scrapeAllWithScreenshots pageless_env world0)) = None \<and>
   running (snd (scrapeAllWithScreenshots pageless_env world0)) = {} \<and>
   fst (scrapeAllWithScreenshots demo_env world0) =
     Inr [demo_funda1, demo_funda4, demo_funda3, demo_funda0] \<and>
   browser (snd (scrapeAllWithScreenshots demo_env world0)) = None \<and>
   running (snd (scrapeAllWithScreenshots demo_env world0)) = {}"
proof -
  have d: "\<forall>b. browser_close demo_env b = Inr ()" by (simp add: demo_env_def)
  have p: "\<forall>b. browser_close pageless_env b = Inr ()"
    by (simp add: pageless_env_def demo_env_def)
  have "running world0 = {}" by (simp add: world0_def)
  with scrapeAll_closes_browser[OF p, of world0] scrapeAll_closes_browser[OF d, of world0]
    pageless_run demo_run d p
  show ?thesis by (simp add: fun_eq_iff)
qed

text \<open>
  When \<^verbatim>\<open>browser.close()\<close> rejects, the rejection leaves \<^verbatim>\<open>scrapeAllWithScreenshots\<close> and
  the browser field still holds the session, which is still running.
\<close>

theorem browser_close_rejects_counterexample:
  "scrapeAllWithScreenshots stuck_env world0 =
     (Inl (JsError ''browser.close failed''),
      \<lparr>browser = Some (Browser 1), running = {Browser 1}, open_pages = 0, pages_made = 2,
       ticks = 6, draws = 16\<rparr>) \<and>
   browser (snd (scrapeAllWithScreenshots stuck_env world0)) \<noteq> None"
  by (simp add: stuck_env_def demo_defs run_defs)

section \<open>Failures of one source\<close>

lemma pararius_open_fails:
  assumes \<open>goto pg ''https://pararius.com/apartments/groningen'' = Inl err \<or>
           waitForSelector pg ''[data-testid="search-list-item"]'' = Inl err\<close>
  shows "\<exists>err'. pararius_open e pg = Inl err'"
  using assms by (auto simp: pararius_open_def await_def swallow_def split: sum.splits)

lemma funda_open_fails:
  assumes \<open>goto pg ''https://www.funda.nl/huur/groningen/'' = Inl err \<or>
           waitForSelector pg ''[data-test-id="search-result-item"]'' = Inl err\<close>
  shows "\<exists>err'. funda_open e pg = Inl err'"
  using assms by (auto simp: funda_open_def await_def swallow_def split: sum.splits)

text \<open>
  The \<^verbatim>\<open>finally\<close> block awaits \<^verbatim>\<open>page.close()\<close>. When that resolves, the empty list of the
  \<^verbatim>\<open>catch\<close> block is what the operation returns; when it rejects, its error replaces the
  empty list.
\<close>

lemma scrape_source_close_rejects:
  assumes "initBrowser e w = (Inr (), w1)" and "newPage e (pages_made w1) = Inr pg"
      and "close pg = Inl err"
  shows "fst (scrape_source try_block e w) = Inl err"
  using assms(3)
  by (simp add: scrape_source_opened[OF assms(1,2)] page_close_def split: prod.splits)

lemma scrape_source_caught:
  assumes "initBrowser e w = (Inr (), w1)" and "newPage e (pages_made w1) = Inr pg"
      and "close pg = Inr ()"
      and "\<And>w2. \<exists>err. try_block e pg w2 = (Inl err, w2)"
  shows "scrape_source try_block e w = (Inr [], w1\<lparr>pages_made := pages_made w1 + 1\<rparr>)"
proof -
  from assms(1) obtain b where b: "browser w1 = Some b"
    by (auto simp: initBrowser_def split: option.splits sum.splits)
  let ?w2 = "w1\<lparr>pages_made := pages_made w1 + 1, open_pages := open_pages w1 + 1\<rparr>"
  from b assms(2) have "browser_newPage e w1 = (Inr pg, ?w2)"
    by (simp add: browser_newPage_def)
  moreover from assms(4) obtain err where "try_block e pg ?w2 = (Inl err, ?w2)" by blast
  moreover from assms(3)
  have "page_close pg ?w2 = (Inr (), w1\<lparr>pages_made := pages_made w1 + 1\<rparr>)"
    by (simp add: page_close_def)
  ultimately show ?thesis using assms(1) by (simp add: scrape_source_def)
qed

text \<open>
  Claim C6, as the code has it. Let the browser be there (or be launched), the page be
  opened, and \<^verbatim>\<open>page.close()\<close> resolve. If the navigation or the wait for the listing
  selector throws, the operation of that source returns the empty list and no error; the
  state it leaves differs only in the count of pages made, so the browser field still
  holds the same running session, the page is closed again, and the next operation finds
  the browser without launching one.
\<close>

theorem navigation_failure_isolated:
  assumes "initBrowser e w = (Inr (), w1)" and "newPage e (pages_made w1) = Inr pg"
      and "close pg = Inr ()"
  shows \<open>(goto pg ''https://pararius.com/apartments/groningen'' = Inl err \<or>
          waitForSelector pg ''[data-testid="search-list-item"]'' = Inl err \<longrightarrow>
            scrapeParariusWithScreenshots e w =
              (Inr [], w1\<lparr>pages_made := pages_made w1 + 1\<rparr>)) \<and>
         (goto pg ''https://www.funda.nl/huur/groningen/'' = Inl err \<or>
          waitForSelector pg ''[data-test-id="search-result-item"]'' = Inl err \<longrightarrow>
            scrapeFundaWithScreenshots e w =
              (Inr [], w1\<lparr>pages_made := pages_made w1 + 1\<rparr>)) \<and>
         browser w1 \<noteq> None \<and>
         same_session w1 (w1\<lparr>pages_made := pages_made w1 + 1\<rparr>) \<and>
         initBrowser e (w1\<lparr>pages_made := pages_made w1 + 1\<rparr>) =
           (Inr (), w1\<lparr>pages_made := pages_made w1 + 1\<rparr>)\<close>
proof -
  from assms(1) obtain b where b: "browser w1 = Some b"
    by (auto simp: initBrowser_def split: option.splits sum.splits)
  have P: "scrapeParariusWithScreenshots e w = (Inr [], w1\<lparr>pages_made := pages_made w1 + 1\<rparr>)"
    if \<open>goto pg ''https://pararius.com/apartments/groningen'' = Inl err \<or>
        waitForSelector pg ''[data-testid="search-list-item"]'' = Inl err\<close>
  proof -
    from pararius_open_fails[OF that] obtain err' where "pararius_open e pg = Inl err'" by blast
    then have "\<exists>err. pararius_try e pg w2 = (Inl err, w2)" for w2
      by (simp add: pararius_try_def)
    from scrape_source_caught[where try_block = pararius_try, OF assms this] show ?thesis
      by (simp add: scrapeParariusWithScreenshots_def)
  qed
  have F: "scrapeFundaWithScreenshots e w = (Inr [], w1\<lparr>pages_made := pages_made w1 + 1\<rparr>)"
    if \<open>goto pg ''https://www.funda.nl/huur/groningen/'' = Inl err \<or>
        waitForSelector pg ''[data-test-id="search-result-item"]'' = Inl err\<close>
  proof -
    from funda_open_fails[OF that] obtain err' where "funda_open e pg = Inl err'" by blast
    then have "\<exists>err. funda_try e pg w2 = (Inl err, w2)" for w2
      by (simp add: funda_try_def)
    from scrape_source_caught[where try_block = funda_try, OF assms this] show ?thesis
      by (simp add: scrapeFundaWithScreenshots_def)
  qed
  from b have "initBrowser e (w1\<lparr>pages_made := pages_made w1 + 1\<rparr>) =
           (Inr (), w1\<lparr>pages_made := pages_made w1 + 1\<rparr>)"
    by (simp add: initBrowser_def)
  with P F b show ?thesis by (simp add: same_session_def)
qed

lemma offline_first_run:
  "initBrowser offline_env world0 =
     (Inr (), world0\<lparr>browser := Some (Browser 1), running := {Browser 1}\<rparr>) \<and>
   newPage offline_env 0 = Inr dead_page \<and>
   close dead_page = Inr () \<and>
   goto dead_page ''https://www.funda.nl/huur/groningen/'' =
     Inl (JsError ''net::ERR_NAME_NOT_RESOLVED'')"
  by (simp add: demo_defs initBrowser_def)

lemma offline_second_run:
  "scrapeFundaWithScreenshots offline_env
      (world0\<lparr>browser := Some (Browser 1), running := {Browser 1}, pages_made := 1\<rparr>) =
     (Inr [demo_funda0, demo_funda1, demo_funda3, demo_funda4],
      \<lparr>browser = Some (Browser 1), running = {Browser 1}, open_pages = 0, pages_made = 2,
       ticks = 6, draws = 16\<rparr>)"
  by (simp add: demo_defs run_defs demo_funda0_def demo_funda1_def demo_funda3_def
      demo_funda4_def)

theorem navigation_failure_isolated_witness:
  "initBrowser offline_env world0 =
     (Inr (), world0\<lparr>browser := Some (Browser 1), running := {Browser 1}\<rparr>) \<and>
   newPage offline_env 0 = Inr dead_page \<and>
   close dead_page = Inr () \<and>
   goto dead_page ''https://www.funda.nl/huur/groningen/'' =
     Inl (JsError ''net::ERR_NAME_NOT_RESOLVED'') \<and>
   scrapeFundaWithScreenshots offline_env world0 =
     (Inr [], world0\<lparr>browser := Some (Browser 1), running := {Browser 1}, pages_made := 1\<rparr>) \<and>
   scrapeFundaWithScreenshots offline_env
      (world0\<lparr>browser := Some (Browser 1), running := {Browser 1}, pages_made := 1\<rparr>) =
     (Inr [demo_funda0, demo_funda1, demo_funda3, demo_funda4],
      \<lparr>browser = Some (Browser 1), running = {Browser 1}, open_pages = 0, pages_made = 2,
       ticks = 6, draws = 16\<rparr>)"
proof -
  let ?w1 = "world0\<lparr>browser := Some (Browser 1), running := {Browser 1}\<rparr>"
  have i: "initBrowser offline_env world0 = (Inr (), ?w1)"
    using offline_first_run by blast
  have n: "newPage offline_env (pages_made ?w1) = Inr dead_page"
    using offline_first_run by (simp add: world0_def)
  have c: "close dead_page = Inr ()"
    using offline_first_run by blast
  have g: "goto dead_page ''https://www.funda.nl/huur/groningen/'' =
     Inl (JsError ''net::ERR_NAME_NOT_RESOLVED'')"
    using offline_first_run by blast
  have "?w1\<lparr>pages_made := pages_made ?w1 + 1\<rparr> =
      world0\<lparr>browser := Some (Browser 1), running := {Browser 1}, pages_made := 1\<rparr>"
    by (simp add: world0_def)
  with navigation_failure_isolated[OF i n c, of "JsError ''net::ERR_NAME_NOT_RESOLVED''"] g
  have "scrapeFundaWithScreenshots offline_env world0 =
     (Inr [], world0\<lparr>browser := Some (Browser 1), running := {Browser 1}, pages_made := 1\<rparr>)"
    by simp
  with offline_first_run offline_second_run show ?thesis by blast
qed

text \<open>
  The navigation throws and \<^verbatim>\<open>page.close()\<close> rejects: the operation does not return the
  empty list, the rejection of \<^verbatim>\<open>page.close()\<close> leaves it.
\<close>

theorem page_close_rejects_counterexample:
  "newPage jammed_env 0 = Inr jammed_page \<and>
   goto jammed_page ''https://www.funda.nl/huur/groningen/'' =
     Inl (JsError ''net::ERR_NAME_NOT_RESOLVED'') \<and>
   scrapeFundaWithScreenshots jammed_env world0 =
     (Inl (JsError ''close failed''),
      \<lparr>browser = Some (Browser 1), running = {Browser 1}, open_pages = 1, pages_made = 1,
       ticks = 0, draws = 0\<rparr>) \<and>
   fst (scrapeFundaWithScreenshots jammed_env world0) \<noteq> Inr []"
  by (simp add: demo_defs run_defs)

section \<open>Failures of one listing\<close>











section \<open>The default title\<close>

lemma pararius_extract_title:
  assumes \<open>query el ''h2, [data-testid="property-title"]'' = Inr None\<close>
      and "pararius_extract i el = Inr x"
  shows "x_title x = Some (str ''Property '' @ show_nat (i + 1))"
  using assms(2) unfolding pararius_extract_def assms(1)
  by (simp add: await_def text_or_def split: sum.splits) auto


lemma digit_not_space: "is_digit c \<Longrightarrow> \<not> is_space c"
  by (auto simp: is_digit_def is_space_def word_le_nat_alt)

lemma dropWhile_rev_last: "xs \<noteq> [] \<Longrightarrow> \<not> P (last xs) \<Longrightarrow> dropWhile P (rev xs) = rev xs"
  by (cases xs rule: rev_cases) simp_all

lemma trim_title_with_index:
  assumes "\<not> is_space c"
  shows "trim (c # s @ show_nat n) = c # s @ show_nat n"
proof -
  have "last (show_nat n) \<in> set (show_nat n)" by (simp add: show_nat_nonempty)
  then have "\<not> is_space (last (show_nat n))" by (blast dest: show_nat_digits digit_not_space)
  then have "\<not> is_space (last (c # s @ show_nat n))" by (simp add: show_nat_nonempty)
  then have "dropWhile is_space (rev (c # s @ show_nat n)) = rev (c # s @ show_nat n)"
    by (intro dropWhile_rev_last) simp_all
  moreover have "dropWhile is_space (c # s @ show_nat n) = c # s @ show_nat n"
    using assms by simp
  ultimately show ?thesis by (simp only: trim_def rev_rev_ident)
qed


text \<open>
  Pararius: the default of line 92, for a selector that matches nothing, is
  \<^verbatim>\<open>Property\<close> and the index plus one, and the default of line 127 is not used for it.
  The code that builds this record is reached only on a page object on which the call
  of line 53 resolves.
\<close>

lemma pararius_title_selector_misses:
  assumes \<open>query el ''h2, [data-testid="property-title"]'' = Inr None\<close>
      and "pararius_element e i el w = (Inr p, w')"
  shows "title p = str ''Property '' @ show_nat (i + 1) \<and>
         title p \<noteq> str ''Pararius Property '' @ show_nat (i + 1)"
proof -
  from pararius_element_record[OF assms(2)] obtain x shot t r1 r2 r3 r4 where
    x: "pararius_extract i el = Inr x" and p: "p = pararius_record i x shot t r1 r2 r3 r4"
    by blast
  have "trim (str ''Property '' @ show_nat (i + 1)) = str ''Property '' @ show_nat (i + 1)"
    using trim_title_with_index[of "of_char CHR ''P''" "str ''roperty ''" "i + 1"]
    by (simp add: str_def is_space_def)
  with pararius_extract_title[OF assms(1) x] p
  have "title p = str ''Property '' @ show_nat (i + 1)"
    by (simp add: pararius_record_fields or_default_def str_def)
  then show ?thesis by (simp add: str_def)
qed







section \<open>The arguments of parseInt\<close>

text \<open>
  Whatever text is matched, the string handed to \<^verbatim>\<open>parseInt\<close> is a non-empty string of
  decimal digits, so \<^verbatim>\<open>parseInt\<close> reads all of it.
\<close>

lemma search_Some: "search here s = Some g \<Longrightarrow> \<exists>t. here t = Some g"
  by (induction s) (auto split: option.splits)

lemma number_group_digits:
  assumes "number_group c s = Some g" and "\<not> is_digit c"
  shows "replace_first c g \<noteq> [] \<and> (\<forall>d\<in>set (replace_first c g). is_digit d)"
proof -
  let ?ds = "takeWhile is_digit s"
  have ds: "\<forall>d\<in>set ?ds. is_digit d" by (auto dest: set_takeWhileD)
  with assms(2) have notin: "c \<notin> set ?ds" by blast
  from assms(1) have ne: "?ds \<noteq> []"
    by (auto simp: number_group_def Let_def split: if_splits)
  from assms(1) consider (plain) "g = ?ds"
    | (sep) after where "g = ?ds @ c # takeWhile is_digit after"
    by (auto simp: number_group_def Let_def split: if_splits list.splits)
  then show ?thesis
  proof cases
    case plain
    with notin ne ds show ?thesis by (simp add: replace_first_def remove1_idem)
  next
    case (sep after)
    with notin have "replace_first c g = ?ds @ takeWhile is_digit after"
      by (simp add: replace_first_def remove1_append)
    with ne ds show ?thesis by (auto dest: set_takeWhileD)
  qed
qed

lemma pararius_price_arg_digits:
  assumes "search pararius_price_here s = Some g"
  shows "replace_first (of_char CHR '','') g \<noteq> [] \<and>
         (\<forall>d\<in>set (replace_first (of_char CHR '','') g). is_digit d)"
proof -
  from search_Some[OF assms] obtain t where "pararius_price_here t = Some g" by blast
  then obtain u where "number_group (of_char CHR '','') u = Some g"
    by (auto simp: pararius_price_here_def split: option.splits list.splits if_splits)
  moreover have "\<not> is_digit (of_char CHR '','')" by (simp add: is_digit_def)
  ultimately show ?thesis by (rule number_group_digits)
qed

lemma funda_price_arg_digits:
  assumes "search funda_price_here s = Some g"
  shows "replace_first (of_char CHR ''.'') g \<noteq> [] \<and>
         (\<forall>d\<in>set (replace_first (of_char CHR ''.'') g). is_digit d)"
proof -
  from search_Some[OF assms] obtain t where "funda_price_here t = Some g" by blast
  then obtain u where "number_group (of_char CHR ''.'') u = Some g"
    by (auto simp: funda_price_here_def split: option.splits list.splits if_splits)
  moreover have "\<not> is_digit (of_char CHR ''.'')" by (simp add: is_digit_def)
  ultimately show ?thesis by (rule number_group_digits)
qed

lemma rooms_arg_digits:
  assumes "search rooms_here s = Some g"
  shows "g \<noteq> [] \<and> (\<forall>d\<in>set g. is_digit d)"
proof -
  from search_Some[OF assms] obtain t where "rooms_here t = Some g" by blast
  then show ?thesis
    by (auto simp: rooms_here_def Let_def split: if_splits dest: set_takeWhileD)
qed

lemma parseInt_digits: "\<forall>d\<in>set s. is_digit d \<Longrightarrow> parseInt s = to_double (digits_value s)"
  by (simp add: parseInt_def takeWhile_eq_all_conv[THEN iffD2])

end
